theory Spec2Isabelle
  imports Complex_Main "HOL-Library.Sublist"
begin

section \<open>JavaScript values and thrown errors\<close>

text \<open>
  A value produced by \<open>JSON.parse\<close> (and so by \<open>request.json()\<close> and
  \<open>response.json()\<close>). Numbers are the finite values; an object is the list of its own
  properties, read with \<open>map_of\<close>.
\<close>

datatype json =
    JNull
  | JBool bool
  | JNum real
  | JStr string
  | JArr "json list"
  | JObj "(string \<times> json) list"

text \<open>
  What a \<open>throw\<close> (or a rejected promise) carries, as far as a \<open>catch\<close> block can tell
  the values apart: an \<open>Error\<close> instance with its class name and message; an object
  that is not an \<open>Error\<close> but has a \<open>message\<close> property; \<open>null\<close>; \<open>undefined\<close>;
  or any other value (\<open>NonError\<close>: a string, a number, an object without a message).
  Messages are strings.
\<close>

datatype js_error =
    JsError (error_name: string) (error_message: string)
  | NonError
  | NonErrorWithMessage string
  | ThrownNull
  | ThrownUndefined

text \<open>
  Reading \<open>error.message\<close> off a caught value with no check before: the property,
  \<open>None\<close> when the value has none (the read gives \<open>undefined\<close>), and a
  \<open>TypeError\<close> thrown by the read itself when the value is \<open>null\<close> or
  \<open>undefined\<close>.
\<close>

fun message_of :: "js_error \<Rightarrow> js_error + string option" where
  "message_of (JsError n m) = Inr (Some m)"
| "message_of NonError = Inr None"
| "message_of (NonErrorWithMessage m) = Inr (Some m)"
| "message_of ThrownNull =
     Inl (JsError ''TypeError'' ''Cannot read properties of null (reading 'message')'')"
| "message_of ThrownUndefined =
     Inl (JsError ''TypeError'' ''Cannot read properties of undefined (reading 'message')'')"

section \<open>The kiosk page component (\<open>HomePage\<close>)\<close>

subsection \<open>Connection management effect\<close>

text \<open>
  The page keeps three flags that drive the WebRTC connection:
  \<open>isConsultationStarted\<close> (local state) and \<open>isConnected\<close>, \<open>isLoading\<close> (from the
  \<open>useWebRTC\<close> hook). The effect runs \<open>handleConnection\<close> whenever one of them
  changes; the hook function it calls is the value of the model.
\<close>

datatype connection_call = CallConnect | CallDisconnect | CallNothing

definition handleConnection :: "bool \<Rightarrow> bool \<Rightarrow> bool \<Rightarrow> connection_call" where
  "handleConnection isConsultationStarted isConnected isLoading =
     (if isConsultationStarted \<and> \<not> isConnected \<and> \<not> isLoading then CallConnect
      else if \<not> isConsultationStarted \<and> isConnected then CallDisconnect
      else CallNothing)"

subsection \<open>Pause and resume\<close>

text \<open>
  \<open>handleTogglePause\<close> reads the \<open>isPaused\<close> flag of the render it was created in,
  awaits \<open>pauseSession\<close> or \<open>resumeSession\<close> of the WebRTC hook and only then sets
  the flag. The two hook functions are outside this component: each is given by the way
  its promise settles (\<open>Inr ()\<close> resolved, \<open>Inl err\<close> rejected). The result is the
  flag after the handler together with what the handler did, in order.
\<close>

datatype pause_event =
    PauseSessionCalled
  | ResumeSessionCalled
  | SetIsPaused bool
  | PauseErrorLogged js_error

definition handleTogglePause ::
  "bool \<Rightarrow> js_error + unit \<Rightarrow> js_error + unit \<Rightarrow> bool \<times> pause_event list" where
  "handleTogglePause isPaused pauseSession resumeSession =
     (if \<not> isPaused then
        (case pauseSession of
           Inr _ \<Rightarrow> (True, [PauseSessionCalled, SetIsPaused True])
         | Inl err \<Rightarrow> (isPaused, [PauseSessionCalled, PauseErrorLogged err]))
      else
        (case resumeSession of
           Inr _ \<Rightarrow> (False, [ResumeSessionCalled, SetIsPaused False])
         | Inl err \<Rightarrow> (isPaused, [ResumeSessionCalled, PauseErrorLogged err])))"

subsection \<open>Continuous analysis effect\<close>

text \<open>
  A conversation message as the effect reads it, and the single slot
  \<open>lastAnalyzedMessageRef\<close> holding the timestamp and content of the message analysed
  last (\<open>None\<close> for \<open>null\<close>).
\<close>

record message =
  msg_role :: string
  msg_content :: string
  msg_timestamp :: string

type_synonym analyzed_ref = "(string \<times> string) option"

text \<open>The argument of \<open>analyzeMutation.mutateAsync\<close>.\<close>

record analysis_request =
  req_messages :: "(string \<times> string) list"
  req_sessionId :: string

definition background_marker :: string where
  "background_marker = ''[Background Analysis]''"

text \<open>\<open>s.includes(t)\<close>: \<open>t\<close> occurs in \<open>s\<close> as a contiguous run.\<close>

definition str_includes :: "string \<Rightarrow> string \<Rightarrow> bool" where
  "str_includes s t = sublist t s"

definition already_analyzed :: "analyzed_ref \<Rightarrow> message \<Rightarrow> bool" where
  "already_analyzed r m =
     (case r of
        None \<Rightarrow> False
      | Some (ts, c) \<Rightarrow> ts = msg_timestamp m \<and> c = msg_content m)"

definition conversationForAnalysis :: "message list \<Rightarrow> (string \<times> string) list" where
  "conversationForAnalysis messages =
     map (\<lambda>m. (msg_role m, msg_content m))
       (filter (\<lambda>m. msg_role m = ''user'' \<or> msg_role m = ''assistant'') messages)"

text \<open>
  \<open>performContinuousAnalysis\<close>: the new content of the ref, and the request submitted
  together with the last message it was submitted for (\<open>None\<close> when the function
  returns early). The request is made whether or not the mutation later fails.
\<close>

definition performContinuousAnalysis ::
  "message list \<Rightarrow> string option \<Rightarrow> analyzed_ref \<Rightarrow>
     analyzed_ref \<times> (message \<times> analysis_request) option" where
  "performContinuousAnalysis messages sessionId r =
     (if messages = [] then (r, None)
      else
        let lastMessage = last messages in
        if msg_role lastMessage \<noteq> ''user'' \<or>
           str_includes (msg_content lastMessage) background_marker \<or>
           already_analyzed r lastMessage
        then (r, None)
        else
          (Some (msg_timestamp lastMessage, msg_content lastMessage),
           Some (lastMessage,
             \<lparr>req_messages = conversationForAnalysis messages,
              req_sessionId = (case sessionId of None \<Rightarrow> [] | Some sid \<Rightarrow> sid)\<rparr>)))"

text \<open>
  One run of the effect whose timer fires: the analysis is scheduled only while the
  consultation is started and not paused.
\<close>

record analysis_run =
  run_messages :: "message list"
  run_isConsultationStarted :: bool
  run_isPaused :: bool
  run_sessionId :: "string option"

definition continuousAnalysisEffect ::
  "analysis_run \<Rightarrow> analyzed_ref \<Rightarrow> analyzed_ref \<times> (message \<times> analysis_request) option" where
  "continuousAnalysisEffect run r =
     (if run_isConsultationStarted run \<and> \<not> run_isPaused run
      then performContinuousAnalysis (run_messages run) (run_sessionId run) r
      else (r, None))"

text \<open>
  Successive runs of the effect in one mounted component: the ref is threaded through,
  the submissions are collected in order.
\<close>

fun analysis_runs ::
  "analyzed_ref \<Rightarrow> analysis_run list \<Rightarrow> analyzed_ref \<times> (message \<times> analysis_request) list" where
  "analysis_runs r [] = (r, [])"
| "analysis_runs r (run # runs) =
     (case continuousAnalysisEffect run r of
        (r', sub) \<Rightarrow>
          (case analysis_runs r' runs of
             (r'', subs) \<Rightarrow> (r'', (case sub of None \<Rightarrow> [] | Some x \<Rightarrow> [x]) @ subs)))"

definition submitted :: "analyzed_ref \<Rightarrow> analysis_run list \<Rightarrow> (string \<times> string) list" where
  "submitted r runs =
     map (\<lambda>(m, req). (msg_timestamp m, msg_content m)) (snd (analysis_runs r runs))"

subsection \<open>Completed-jobs effect\<close>

text \<open>
  What \<open>pollJobStatus\<close> returns for one job. The page checks the shape of \<open>data\<close> at
  run time, so its two fields are untyped values; \<open>None\<close> is \<open>null\<close>.
\<close>

record job_data =
  jd_processed :: json
  jd_data :: json

record job_result =
  jr_jobId :: string
  jr_status :: string
  jr_data :: "job_data option"

record insight =
  ins_id :: string
  ins_content :: string
  ins_timestamp :: string

text \<open>The \<open>response.create\<close> event passed to \<open>sendMessage\<close>.\<close>

datatype rtc_message = ResponseCreate (modalities: "string list") (instructions: string)

text \<open>The part of the component state the effect touches, and the messages it sent.\<close>

record page_state =
  insights :: "insight list"
  workerIds :: "string list"
  lastAnalysisTimestamp :: "string option"
  sentMessages :: "rtc_message list"

fun typeof_string :: "json \<Rightarrow> bool" where
  "typeof_string (JStr s) = True"
| "typeof_string _ = False"

text \<open>The callback of \<open>jobStatuses.filter\<close>.\<close>

definition is_completed :: "job_result \<Rightarrow> bool" where
  "is_completed js =
     (if jr_status js \<noteq> ''completed'' \<or> jr_data js = None then False
      else
        (case jr_data js of
           None \<Rightarrow> False
         | Some jobData \<Rightarrow> jd_processed jobData = JBool True \<and> typeof_string (jd_data jobData)))"

text \<open>
  \<open>job.data.data\<close>, read only on jobs that passed the filter, where it is a string.
\<close>

definition analysisData :: "job_result \<Rightarrow> string" where
  "analysisData job =
     (case jr_data job of
        Some jobData \<Rightarrow> (case jd_data jobData of JStr s \<Rightarrow> s | _ \<Rightarrow> [])
      | None \<Rightarrow> [])"

text \<open>
  The body of \<open>completedJobs.forEach\<close>; \<open>clock k\<close> is what
  \<open>new Date().toISOString()\<close> returns for the \<open>k\<close>-th job of the run.
\<close>

fun forEach_completed ::
  "(nat \<Rightarrow> string) \<Rightarrow> nat \<Rightarrow> job_result list \<Rightarrow> page_state \<Rightarrow> page_state" where
  "forEach_completed clock k [] s = s"
| "forEach_completed clock k (job # jobs) s =
     forEach_completed clock (Suc k) jobs
       (s\<lparr>lastAnalysisTimestamp := Some (clock k),
          insights := insights s @
            [\<lparr>ins_id = jr_jobId job, ins_content = analysisData job, ins_timestamp = clock k\<rparr>],
          sentMessages := sentMessages s @
            [ResponseCreate [''text''] (''[Background Analysis] '' @ analysisData job)]\<rparr>)"

definition completedJobsEffect ::
  "(nat \<Rightarrow> string) \<Rightarrow> job_result list option \<Rightarrow> page_state \<Rightarrow> page_state" where
  "completedJobsEffect clock jobStatuses s =
     (case jobStatuses of
        None \<Rightarrow> s
      | Some statuses \<Rightarrow>
          let completedJobs = filter is_completed statuses in
          if length completedJobs > 0 then
            let s' = forEach_completed clock 0 completedJobs s in
            s'\<lparr>workerIds :=
                 filter (\<lambda>id. find (\<lambda>job. jr_jobId job = id) completedJobs = None)
                   (workerIds s')\<rparr>
          else s)"

subsection \<open>Finishing the consultation\<close>

text \<open>
  \<open>handleFinishConsultation\<close> is an arrow function bound by a \<open>const\<close> at the top level
  of the module, after the component. The identifiers of its body that the module does
  not bind are looked up when the statement using them runs, and a lookup that finds
  no binding throws a \<open>ReferenceError\<close>. A scope is the list of names bound where the
  function is declared; the result is how the promise of the function settles and
  what it did before. The data sent to the summary endpoint is not part of the model:
  \<open>fetch\<close> is given by its outcome (the \<open>ok\<close> flag and what \<open>response.json()\<close>
  yields as \<open>summary\<close>).
\<close>

datatype finish_event =
    SetIsGeneratingSummary bool
  | FetchGenerateSummary
  | Disconnect
  | RouterPushEnd string
  | FinishErrorLogged js_error

type_synonym 'a effectful = "(js_error + 'a) \<times> finish_event list"

definition and_then :: "'a effectful \<Rightarrow> ('a \<Rightarrow> 'b effectful) \<Rightarrow> 'b effectful" where
  "and_then m f =
     (case m of
        (Inl e, evs) \<Rightarrow> (Inl e, evs)
      | (Inr a, evs) \<Rightarrow> (case f a of (r, evs') \<Rightarrow> (r, evs @ evs')))"

definition perform :: "finish_event \<Rightarrow> unit effectful" where
  "perform ev = (Inr (), [ev])"

definition resolve :: "string list \<Rightarrow> string \<Rightarrow> unit effectful" where
  "resolve scope x =
     (if x \<in> set scope then (Inr (), [])
      else (Inl (JsError ''ReferenceError'' (x @ '' is not defined'')), []))"

record summary_response =
  resp_ok :: bool
  resp_summary :: "js_error + string"

definition finish_try ::
  "string list \<Rightarrow> js_error + summary_response \<Rightarrow> unit effectful" where
  "finish_try scope fetched =
     and_then (resolve scope ''setIsGeneratingSummary'') (\<lambda>_.
     and_then (perform (SetIsGeneratingSummary True)) (\<lambda>_.
     and_then (resolve scope ''messages'') (\<lambda>_.
     and_then (resolve scope ''analyzedFiles'') (\<lambda>_.
     and_then (resolve scope ''insights'') (\<lambda>_.
     and_then (perform FetchGenerateSummary) (\<lambda>_.
     and_then (fetched, []) (\<lambda>response.
     and_then (if \<not> resp_ok response
               then (Inl (JsError ''Error'' ''Failed to generate summary''), [])
               else (Inr (), [])) (\<lambda>_.
     and_then (resp_summary response, []) (\<lambda>summary.
     and_then (resolve scope ''disconnect'') (\<lambda>_.
     and_then (perform Disconnect) (\<lambda>_.
     and_then (resolve scope ''router'') (\<lambda>_.
     perform (RouterPushEnd summary)))))))))))))"

definition handleFinishConsultation ::
  "string list \<Rightarrow> js_error + summary_response \<Rightarrow> unit effectful" where
  "handleFinishConsultation scope fetched =
     (case finish_try scope fetched of
        (Inr u, evs) \<Rightarrow> (Inr u, evs)
      | (Inl error, evs) \<Rightarrow>
          and_then (Inr (), evs @ [FinishErrorLogged error]) (\<lambda>_.
          and_then (resolve scope ''setIsGeneratingSummary'') (\<lambda>_.
          perform (SetIsGeneratingSummary False))))"

text \<open>
  The names the module binds at run time: its imports (type-only imports bind
  nothing), the component and the handler itself. The global scope (\<open>console\<close>,
  \<open>fetch\<close>, \<open>JSON\<close> and the like) binds none of the six names the handler looks up,
  so it is left out.
\<close>

definition module_scope :: "string list" where
  "module_scope =
     [''useEffect'', ''useRef'', ''useState'', ''useAuth'', ''useRouter'', ''motion'',
      ''AnimatePresence'', ''Mic'', ''MicOff'', ''Pause'', ''Play'', ''X'', ''Check'',
      ''useConversation'', ''useWebRTC'', ''useKioskSession'', ''api'', ''BoothLogo'',
      ''Blob'', ''ConfirmDialog'', ''ControlButton'', ''FileUploadSection'',
      ''SessionIdDisplay'', ''WorkerStatus'', ''AnalysisStatus'', ''AnalyzedFilesList'',
      ''InsightsList'', ''PulsingBlob'', ''HomePage'', ''handleFinishConsultation'']"

section \<open>The API routes\<close>

subsection \<open>Schema validation (zod)\<close>

text \<open>
  The validation library is not part of the repository; the schemas the route builds
  are modelled by what they do to a parsed JSON value. A schema reads an input that may
  be absent (\<open>None\<close> is \<open>undefined\<close>, the value of a missing property) and yields
  either the list of issues found or the parsed output. Issues carry their code and
  the path of the value they are about.
\<close>

datatype path_elem = Key string | Index nat

datatype issue_code = invalid_type | invalid_enum_value | invalid_union | too_small | too_big

datatype zod_issue = ZodIssue (issue_code: issue_code) (issue_path: "path_elem list")

type_synonym 'a parsed = "zod_issue list + 'a"

type_synonym 'a schema = "json option \<Rightarrow> 'a parsed"

fun z_string :: "string schema" where
  "z_string (Some (JStr s)) = Inr s"
| "z_string _ = Inl [ZodIssue invalid_type []]"

fun z_boolean :: "bool schema" where
  "z_boolean (Some (JBool b)) = Inr b"
| "z_boolean _ = Inl [ZodIssue invalid_type []]"

fun z_number :: "real schema" where
  "z_number (Some (JNum n)) = Inr n"
| "z_number _ = Inl [ZodIssue invalid_type []]"

text \<open>\<open>z.number().min(lo).max(hi)\<close>: both bounds are inclusive and both are checked.\<close>

definition z_number_min_max :: "real \<Rightarrow> real \<Rightarrow> real schema" where
  "z_number_min_max lo hi x =
     (case z_number x of
        Inl issues \<Rightarrow> Inl issues
      | Inr n \<Rightarrow>
          let issues = (if n < lo then [ZodIssue too_small []] else []) @
                       (if n > hi then [ZodIssue too_big []] else [])
          in if issues = [] then Inr n else Inl issues)"

fun z_enum :: "string list \<Rightarrow> string schema" where
  "z_enum values (Some (JStr s)) =
     (if s \<in> set values then Inr s else Inl [ZodIssue invalid_enum_value []])"
| "z_enum values _ = Inl [ZodIssue invalid_type []]"

text \<open>\<open>z.union([a, b])\<close>: the first option that accepts the input gives the output.\<close>

definition z_union :: "'a schema \<Rightarrow> 'b schema \<Rightarrow> ('a + 'b) schema" where
  "z_union a b x =
     (case a x of
        Inr v \<Rightarrow> Inr (Inl v)
      | Inl _ \<Rightarrow>
          (case b x of
             Inr w \<Rightarrow> Inr (Inr w)
           | Inl _ \<Rightarrow> Inl [ZodIssue invalid_union []]))"

text \<open>Issues found inside a property or an element get its key in front of their path.\<close>

definition at_path :: "path_elem \<Rightarrow> 'a parsed \<Rightarrow> 'a parsed" where
  "at_path k r =
     (case r of
        Inl issues \<Rightarrow> Inl (map (\<lambda>i. ZodIssue (issue_code i) (k # issue_path i)) issues)
      | Inr v \<Rightarrow> Inr v)"

text \<open>Applying a parsed function to a parsed argument: the issues of both are kept.\<close>

definition ap :: "('a \<Rightarrow> 'b) parsed \<Rightarrow> 'a parsed \<Rightarrow> 'b parsed" where
  "ap f x =
     (case f of
        Inr g \<Rightarrow> (case x of Inr v \<Rightarrow> Inr (g v) | Inl ix \<Rightarrow> Inl ix)
      | Inl ig \<Rightarrow> (case x of Inr v \<Rightarrow> Inl ig | Inl ix \<Rightarrow> Inl (ig @ ix)))"

fun z_elements :: "'a schema \<Rightarrow> nat \<Rightarrow> json list \<Rightarrow> 'a list parsed" where
  "z_elements elem i [] = Inr []"
| "z_elements elem i (v # vs) =
     ap (ap (Inr Cons) (at_path (Index i) (elem (Some v)))) (z_elements elem (Suc i) vs)"

fun z_array :: "'a schema \<Rightarrow> 'a list schema" where
  "z_array elem (Some (JArr vs)) = z_elements elem 0 vs"
| "z_array elem _ = Inl [ZodIssue invalid_type []]"

text \<open>\<open>s.optional()\<close>: a missing value is accepted as it is.\<close>

definition z_optional :: "'a schema \<Rightarrow> 'a option schema" where
  "z_optional inner x =
     (case x of
        None \<Rightarrow> Inr None
      | Some v \<Rightarrow> (case inner (Some v) of Inl issues \<Rightarrow> Inl issues | Inr a \<Rightarrow> Inr (Some a)))"

text \<open>
  \<open>s.optional().default(d)\<close>: a missing value is replaced by the default, any other
  input goes through \<open>s\<close>.
\<close>

definition z_optional_default :: "'a schema \<Rightarrow> 'a \<Rightarrow> 'a schema" where
  "z_optional_default inner d x =
     (case x of
        None \<Rightarrow> Inr d
      | Some v \<Rightarrow> inner (Some v))"

text \<open>Reading one property of the object under validation.\<close>

definition property :: "(string \<times> json) list \<Rightarrow> string \<Rightarrow> 'a schema \<Rightarrow> 'a parsed" where
  "property props k s = at_path (Key k) (s (map_of props k))"

subsection \<open>The Tavily search route\<close>

datatype tavily_params = TavilyParams
  (query: string)
  (searchDepth: string)
  (topic: string)
  (days: real)
  (timeRange: "string option")
  (maxResults: real)
  (includeImages: bool)
  (includeImageDescriptions: bool)
  (includeAnswer: "bool + string")
  (includeRawContent: bool)
  (includeDomains: "string list")
  (excludeDomains: "string list")

text \<open>
  \<open>TavilySearchSchema.parse\<close>: an object schema accepts objects only and keeps the
  properties it declares.
\<close>

fun TavilySearchSchema_parse :: "json \<Rightarrow> tavily_params parsed" where
  "TavilySearchSchema_parse (JObj props) =
     ap (ap (ap (ap (ap (ap (ap (ap (ap (ap (ap (ap (Inr TavilyParams)
       (property props ''query'' z_string))
       (property props ''searchDepth''
          (z_optional_default (z_enum [''basic'', ''advanced'']) ''basic'')))
       (property props ''topic''
          (z_optional_default (z_enum [''general'', ''news'']) ''general'')))
       (property props ''days'' (z_optional_default z_number 3)))
       (property props ''timeRange'' (z_optional z_string)))
       (property props ''maxResults'' (z_optional_default (z_number_min_max 0 20) 5)))
       (property props ''includeImages'' (z_optional_default z_boolean False)))
       (property props ''includeImageDescriptions'' (z_optional_default z_boolean False)))
       (property props ''includeAnswer''
          (z_optional_default (z_union z_boolean z_string) (Inl False))))
       (property props ''includeRawContent'' (z_optional_default z_boolean False)))
       (property props ''includeDomains'' (z_optional_default (z_array z_string) [])))
       (property props ''excludeDomains'' (z_optional_default (z_array z_string) []))"
| "TavilySearchSchema_parse _ = Inl [ZodIssue invalid_type []]"

text \<open>A response of a route handler: its status and its JSON body.\<close>

datatype 'b http_response = HttpResponse (http_status: nat) (http_body: 'b)

text \<open>
  The two bodies of the search route: \<open>{success: true, result}\<close> and
  \<open>{success: false, error}\<close>. A response carries its body as JSON, so the result in
  it is the serialised form of the value the handler passed.
\<close>

datatype 'w search_body = SearchSuccess 'w | SearchFailure string

text \<open>\<open>error instanceof Error ? error.message : 'Unknown error'\<close>.\<close>

fun failure_text :: "js_error \<Rightarrow> string" where
  "failure_text (JsError n m) = m"
| "failure_text _ = ''Unknown error''"

text \<open>
  The handler. Its surroundings are arguments: \<open>request_json\<close> is how
  \<open>request.json()\<close> settles, \<open>tavily apiKey\<close> is the client built from the configured
  key, given by its \<open>search\<close> (which returns a result or throws; a client that cannot
  be built is one whose search throws, as nothing happens between the two calls),
  \<open>zod_message\<close> renders the issues of a failed validation as the message of the
  error that \<open>parse\<close> throws, and \<open>to_json\<close> is the serialisation
  \<open>NextResponse.json\<close> applies to the result inside \<open>{success: true, result}\<close>: it
  yields the serialised result or throws (a \<open>BigInt\<close>, a cyclic object). That call is
  the last statement of the \<open>try\<close> block, so what it throws is caught like the
  rest. The failure body holds a string and always serialises. The status is 200 unless
  another is given.
\<close>

definition POST ::
  "(zod_issue list \<Rightarrow> string) \<Rightarrow> string \<Rightarrow> (string \<Rightarrow> tavily_params \<Rightarrow> js_error + 'r) \<Rightarrow>
     ('r \<Rightarrow> js_error + 'w) \<Rightarrow> js_error + json \<Rightarrow> 'w search_body http_response" where
  "POST zod_message apiKey tavily to_json request_json =
     (case
        (case request_json of
           Inl e \<Rightarrow> Inl e
         | Inr body \<Rightarrow>
             (case TavilySearchSchema_parse body of
                Inl issues \<Rightarrow> Inl (JsError ''ZodError'' (zod_message issues))
              | Inr params \<Rightarrow>
                  let client = tavily apiKey in
                  (case client params of
                     Inl e \<Rightarrow> Inl e
                   | Inr result \<Rightarrow>
                       (case to_json result of
                          Inl e \<Rightarrow> Inl e
                        | Inr serialised \<Rightarrow>
                            Inr (HttpResponse 200 (SearchSuccess serialised))))))
      of
        Inr response \<Rightarrow> response
      | Inl error \<Rightarrow> HttpResponse 500 (SearchFailure (failure_text error)))"

subsection \<open>The realtime session route\<close>

text \<open>
  What \<open>fetch\<close> resolves to, as far as the handler reads it: the \<open>ok\<close> flag, the
  status and how \<open>json()\<close> settles. The request sent upstream is fixed (model, voice,
  turn detection, instructions); nothing of it comes from the caller.
\<close>

record 'd upstream_response =
  up_ok :: bool
  up_status :: nat
  up_json :: "js_error + 'd"

text \<open>
  The two bodies of the route: the session data, serialised, or
  \<open>{error: 'Failed to create session', details}\<close>, where \<open>details\<close> is left out
  when it is \<open>undefined\<close>.
\<close>

datatype 'w session_body = SessionData 'w | SessionError string "string option"

text \<open>
  The \<open>try\<close> block. \<open>show_status\<close> and \<open>stringify\<close> are the conversions the
  template string of the error message applies to the status and to the error data
  (\<open>JSON.stringify\<close>, which may throw); \<open>to_json\<close> is the serialisation
  \<open>NextResponse.json\<close> applies to the session data, which may throw as well. An
  upstream answer that is not OK makes the block throw an \<open>Error\<close> of its own, after
  its error data is read and logged (a \<open>Response\<close> has headers, so logging them does
  not throw).
\<close>

definition GET_try ::
  "(nat \<Rightarrow> string) \<Rightarrow> ('d \<Rightarrow> js_error + string) \<Rightarrow> ('d \<Rightarrow> js_error + 'w) \<Rightarrow>
     js_error + 'd upstream_response \<Rightarrow> js_error + 'w session_body http_response" where
  "GET_try show_status stringify to_json fetched =
     (case fetched of
        Inl e \<Rightarrow> Inl e
      | Inr sessionResponse \<Rightarrow>
          if \<not> up_ok sessionResponse then
            (case up_json sessionResponse of
               Inl e \<Rightarrow> Inl e
             | Inr errorData \<Rightarrow>
                 (case stringify errorData of
                    Inl e \<Rightarrow> Inl e
                  | Inr text \<Rightarrow>
                      Inl (JsError ''Error''
                        (''OpenAI API error: '' @ show_status (up_status sessionResponse) @
                         '' - '' @ text))))
          else
            (case up_json sessionResponse of
               Inl e \<Rightarrow> Inl e
             | Inr sessionData \<Rightarrow>
                 (case to_json sessionData of
                    Inl e \<Rightarrow> Inl e
                  | Inr serialised \<Rightarrow> Inr (HttpResponse 200 (SessionData serialised)))))"

text \<open>
  The handler: the \<open>catch\<close> block casts what it caught to \<open>Error\<close> and reads its
  message with no check. When that read throws, the handler throws (\<open>Inl\<close>) and
  returns no response of its own.
\<close>

definition GET ::
  "(nat \<Rightarrow> string) \<Rightarrow> ('d \<Rightarrow> js_error + string) \<Rightarrow> ('d \<Rightarrow> js_error + 'w) \<Rightarrow>
     js_error + 'd upstream_response \<Rightarrow> js_error + 'w session_body http_response" where
  "GET show_status stringify to_json fetched =
     (case GET_try show_status stringify to_json fetched of
        Inr response \<Rightarrow> Inr response
      | Inl error \<Rightarrow>
          (case message_of error of
             Inl thrown \<Rightarrow> Inl thrown
           | Inr details \<Rightarrow>
               Inr (HttpResponse 500 (SessionError ''Failed to create session'' details))))"

section \<open>The relational schema\<close>

subsection \<open>The schema as data\<close>

text \<open>
  A model of the Prisma schema is a list of fields: the name, the type (a scalar type
  or another model), whether the field is required (\<open>T\<close>), optional (\<open>T?\<close>) or a list
  (\<open>T[]\<close>), and its attributes. The last component of a model holds its \<open>@@index\<close>
  declarations.
\<close>

datatype arity = Required | Optional | ListOf

datatype attribute =
    AttrId
  | AttrUnique
  | AttrUpdatedAt
  | AttrDefault string
  | AttrRelation "string list" "string list"

datatype field = Field
  (field_name: string)
  (field_type: string)
  (field_arity: arity)
  (field_attrs: "attribute list")

datatype model = Model
  (model_name: string)
  (model_fields: "field list")
  (model_indexes: "string list list")

definition Post :: model where
  "Post =
     Model ''Post''
       [Field ''id'' ''Int'' Required [AttrId, AttrDefault ''autoincrement()''],
        Field ''name'' ''String'' Required [],
        Field ''createdAt'' ''DateTime'' Required [AttrDefault ''now()''],
        Field ''updatedAt'' ''DateTime'' Required [AttrUpdatedAt],
        Field ''createdById'' ''String'' Required []]
       [[''name'']]"

definition Kiosk :: model where
  "Kiosk =
     Model ''Kiosk''
       [Field ''id'' ''String'' Required [AttrId, AttrDefault ''uuid()''],
        Field ''location'' ''String'' Optional [],
        Field ''description'' ''String'' Optional [],
        Field ''status'' ''String'' Required [],
        Field ''createdAt'' ''DateTime'' Required [AttrDefault ''now()''],
        Field ''updatedAt'' ''DateTime'' Required [AttrUpdatedAt],
        Field ''sessions'' ''Session'' ListOf []]
       []"

definition Session :: model where
  "Session =
     Model ''Session''
       [Field ''id'' ''String'' Required [AttrId, AttrDefault ''uuid()''],
        Field ''userId'' ''String'' Required [],
        Field ''kioskId'' ''String'' Required [],
        Field ''startTime'' ''DateTime'' Optional [],
        Field ''endTime'' ''DateTime'' Optional [],
        Field ''state'' ''String'' Required [],
        Field ''createdAt'' ''DateTime'' Required [AttrDefault ''now()''],
        Field ''updatedAt'' ''DateTime'' Required [AttrUpdatedAt],
        Field ''kiosk'' ''Kiosk'' Required [AttrRelation [''kioskId''] [''id'']],
        Field ''conversation'' ''Conversation'' Optional [],
        Field ''healthMarkers'' ''HealthMarker'' ListOf [],
        Field ''recommendations'' ''Recommendation'' ListOf [],
        Field ''referrals'' ''Referral'' ListOf [],
        Field ''externalQueries'' ''ExternalQuery'' ListOf [],
        Field ''medias'' ''Media'' ListOf [],
        Field ''metaReasonings'' ''MetaReasoning'' ListOf [],
        Field ''realtimeSessions'' ''RealtimeSession'' ListOf [],
        Field ''auditLogs'' ''AuditLog'' ListOf [],
        Field ''continualFeeds'' ''ContinualVisionFeed'' ListOf [],
        Field ''analysisStatuses'' ''AnalysisStatus'' ListOf []]
       []"

definition Conversation :: model where
  "Conversation =
     Model ''Conversation''
       [Field ''id'' ''String'' Required [AttrId, AttrDefault ''uuid()''],
        Field ''sessionId'' ''String'' Required [AttrUnique],
        Field ''createdAt'' ''DateTime'' Required [AttrDefault ''now()''],
        Field ''updatedAt'' ''DateTime'' Required [AttrUpdatedAt],
        Field ''session'' ''Session'' Required [AttrRelation [''sessionId''] [''id'']],
        Field ''chatMessages'' ''ChatMessage'' ListOf []]
       []"

definition ChatMessage :: model where
  "ChatMessage =
     Model ''ChatMessage''
       [Field ''id'' ''String'' Required [AttrId, AttrDefault ''uuid()''],
        Field ''conversationId'' ''String'' Required [],
        Field ''sender'' ''String'' Required [],
        Field ''messageText'' ''String'' Required [],
        Field ''timestamp'' ''DateTime'' Required [AttrDefault ''now()''],
        Field ''conversation'' ''Conversation'' Required
          [AttrRelation [''conversationId''] [''id'']]]
       []"

definition HealthMarker :: model where
  "HealthMarker =
     Model ''HealthMarker''
       [Field ''id'' ''String'' Required [AttrId, AttrDefault ''uuid()''],
        Field ''sessionId'' ''String'' Required [],
        Field ''markerType'' ''String'' Required [],
        Field ''data'' ''String'' Required [],
        Field ''capturedAt'' ''DateTime'' Required [AttrDefault ''now()''],
        Field ''deviceId'' ''String'' Optional [],
        Field ''session'' ''Session'' Required [AttrRelation [''sessionId''] [''id'']],
        Field ''device'' ''Device'' Optional [AttrRelation [''deviceId''] [''id'']]]
       []"

definition Device :: model where
  "Device =
     Model ''Device''
       [Field ''id'' ''String'' Required [AttrId, AttrDefault ''uuid()''],
        Field ''name'' ''String'' Required [],
        Field ''deviceTypeId'' ''String'' Required [],
        Field ''connectionMethod'' ''String'' Optional [],
        Field ''lastReadingAt'' ''DateTime'' Optional [],
        Field ''createdAt'' ''DateTime'' Required [AttrDefault ''now()''],
        Field ''updatedAt'' ''DateTime'' Required [AttrUpdatedAt],
        Field ''deviceType'' ''DeviceType'' Required [AttrRelation [''deviceTypeId''] [''id'']],
        Field ''healthMarkers'' ''HealthMarker'' ListOf [],
        Field ''auditLogs'' ''AuditLog'' ListOf []]
       []"

definition DeviceType :: model where
  "DeviceType =
     Model ''DeviceType''
       [Field ''id'' ''String'' Required [AttrId, AttrDefault ''uuid()''],
        Field ''typeKey'' ''String'' Required [AttrUnique],
        Field ''description'' ''String'' Optional [],
        Field ''devices'' ''Device'' ListOf []]
       []"

definition Recommendation :: model where
  "Recommendation =
     Model ''Recommendation''
       [Field ''id'' ''String'' Required [AttrId, AttrDefault ''uuid()''],
        Field ''sessionId'' ''String'' Required [],
        Field ''title'' ''String'' Required [],
        Field ''description'' ''String'' Optional [],
        Field ''externalLinks'' ''String'' Optional [],
        Field ''createdAt'' ''DateTime'' Required [AttrDefault ''now()''],
        Field ''session'' ''Session'' Required [AttrRelation [''sessionId''] [''id'']]]
       []"

definition Referral :: model where
  "Referral =
     Model ''Referral''
       [Field ''id'' ''String'' Required [AttrId, AttrDefault ''uuid()''],
        Field ''sessionId'' ''String'' Required [],
        Field ''referredTo'' ''String'' Optional [],
        Field ''scheduledTime'' ''DateTime'' Optional [],
        Field ''status'' ''String'' Optional [],
        Field ''session'' ''Session'' Required [AttrRelation [''sessionId''] [''id'']]]
       []"

definition ExternalQuery :: model where
  "ExternalQuery =
     Model ''ExternalQuery''
       [Field ''id'' ''String'' Required [AttrId, AttrDefault ''uuid()''],
        Field ''sessionId'' ''String'' Optional [],
        Field ''queryText'' ''String'' Required [],
        Field ''sourceType'' ''String'' Required [],
        Field ''options'' ''String'' Optional [],
        Field ''timestamp'' ''DateTime'' Required [AttrDefault ''now()''],
        Field ''session'' ''Session'' Optional [AttrRelation [''sessionId''] [''id'']],
        Field ''externalResults'' ''ExternalResult'' ListOf []]
       []"

definition ExternalResult :: model where
  "ExternalResult =
     Model ''ExternalResult''
       [Field ''id'' ''String'' Required [AttrId, AttrDefault ''uuid()''],
        Field ''externalQueryId'' ''String'' Required [],
        Field ''resultContent'' ''String'' Required [],
        Field ''responseTime'' ''Float'' Optional [],
        Field ''createdAt'' ''DateTime'' Required [AttrDefault ''now()''],
        Field ''externalQuery'' ''ExternalQuery'' Required
          [AttrRelation [''externalQueryId''] [''id'']]]
       []"

definition Media :: model where
  "Media =
     Model ''Media''
       [Field ''id'' ''String'' Required [AttrId, AttrDefault ''uuid()''],
        Field ''sessionId'' ''String'' Required [],
        Field ''mediaType'' ''String'' Required [],
        Field ''storageLocation'' ''String'' Required [],
        Field ''capturedAt'' ''DateTime'' Required [AttrDefault ''now()''],
        Field ''metadata'' ''String'' Optional [],
        Field ''session'' ''Session'' Required [AttrRelation [''sessionId''] [''id'']],
        Field ''visionAnalyses'' ''VisionAnalysis'' ListOf [],
        Field ''continualFeeds'' ''ContinualVisionFeed'' ListOf []]
       []"

definition VisionAnalysis :: model where
  "VisionAnalysis =
     Model ''VisionAnalysis''
       [Field ''id'' ''String'' Required [AttrId, AttrDefault ''uuid()''],
        Field ''mediaId'' ''String'' Required [],
        Field ''analysisType'' ''String'' Required [],
        Field ''analysisResults'' ''String'' Optional [],
        Field ''createdAt'' ''DateTime'' Required [AttrDefault ''now()''],
        Field ''media'' ''Media'' Required [AttrRelation [''mediaId''] [''id'']]]
       []"

definition ContinualVisionFeed :: model where
  "ContinualVisionFeed =
     Model ''ContinualVisionFeed''
       [Field ''id'' ''String'' Required [AttrId, AttrDefault ''uuid()''],
        Field ''feedName'' ''String'' Required [],
        Field ''lastSnapshotId'' ''String'' Optional [],
        Field ''analysisHistory'' ''String'' Optional [],
        Field ''sessionId'' ''String'' Optional [],
        Field ''lastSnapshot'' ''Media'' Optional [AttrRelation [''lastSnapshotId''] [''id'']],
        Field ''session'' ''Session'' Optional [AttrRelation [''sessionId''] [''id'']]]
       []"

definition RealtimeSession :: model where
  "RealtimeSession =
     Model ''RealtimeSession''
       [Field ''id'' ''String'' Required [AttrId, AttrDefault ''uuid()''],
        Field ''sessionId'' ''String'' Optional [],
        Field ''ephemeralKey'' ''String'' Optional [],
        Field ''startedAt'' ''DateTime'' Required [AttrDefault ''now()''],
        Field ''endedAt'' ''DateTime'' Optional [],
        Field ''active'' ''Boolean'' Required [AttrDefault ''true''],
        Field ''session'' ''Session'' Optional [AttrRelation [''sessionId''] [''id'']]]
       []"

definition AuditLog :: model where
  "AuditLog =
     Model ''AuditLog''
       [Field ''id'' ''String'' Required [AttrId, AttrDefault ''uuid()''],
        Field ''eventType'' ''String'' Required [],
        Field ''description'' ''String'' Optional [],
        Field ''details'' ''String'' Optional [],
        Field ''createdAt'' ''DateTime'' Required [AttrDefault ''now()''],
        Field ''sessionId'' ''String'' Optional [],
        Field ''userId'' ''String'' Optional [],
        Field ''deviceId'' ''String'' Optional [],
        Field ''associatedId'' ''String'' Optional [],
        Field ''associatedType'' ''String'' Optional [],
        Field ''session'' ''Session'' Optional [AttrRelation [''sessionId''] [''id'']],
        Field ''device'' ''Device'' Optional [AttrRelation [''deviceId''] [''id'']]]
       []"

definition MetaReasoning :: model where
  "MetaReasoning =
     Model ''MetaReasoning''
       [Field ''id'' ''String'' Required [AttrId, AttrDefault ''uuid()''],
        Field ''sessionId'' ''String'' Required [],
        Field ''agentType'' ''String'' Required [],
        Field ''analysisContent'' ''String'' Optional [],
        Field ''createdAt'' ''DateTime'' Required [AttrDefault ''now()''],
        Field ''session'' ''Session'' Required [AttrRelation [''sessionId''] [''id'']]]
       []"

definition AnalysisStatus :: model where
  "AnalysisStatus =
     Model ''AnalysisStatus''
       [Field ''id'' ''String'' Required [AttrId, AttrDefault ''uuid()''],
        Field ''sessionId'' ''String'' Required [],
        Field ''hasEnoughInformation'' ''Boolean'' Optional [],
        Field ''missingCriticalInfo'' ''String'' Optional [],
        Field ''recommendedNextSteps'' ''String'' Optional [],
        Field ''urgencyLevel'' ''String'' Optional [],
        Field ''reasoning'' ''String'' Optional [],
        Field ''timestamp'' ''DateTime'' Required [AttrDefault ''now()''],
        Field ''session'' ''Session'' Required [AttrRelation [''sessionId''] [''id'']]]
       []"

definition GoogleFitTokens :: model where
  "GoogleFitTokens =
     Model ''GoogleFitTokens''
       [Field ''id'' ''String'' Required [AttrId, AttrDefault ''uuid()''],
        Field ''userId'' ''String'' Required [AttrUnique],
        Field ''accessToken'' ''String'' Required [],
        Field ''refreshToken'' ''String'' Required [],
        Field ''expiryDate'' ''BigInt'' Required [],
        Field ''createdAt'' ''DateTime'' Required [AttrDefault ''now()''],
        Field ''updatedAt'' ''DateTime'' Required [AttrUpdatedAt]]
       []"

definition prisma_schema :: "model list" where
  "prisma_schema =
     [Post, Kiosk, Session, Conversation, ChatMessage, HealthMarker, Device, DeviceType,
      Recommendation, Referral, ExternalQuery, ExternalResult, Media, VisionAnalysis,
      ContinualVisionFeed, RealtimeSession, AuditLog, MetaReasoning, AnalysisStatus,
      GoogleFitTokens]"

subsection \<open>What the schema demands of the stored rows\<close>

text \<open>
  A row maps column names to values (a column that is \<open>NULL\<close> has no entry); a
  database holds the rows of each model. The constraints the schema puts on a database
  are those of the tables generated from it: a required scalar field is a \<open>NOT NULL\<close>
  column, a field with \<open>@id\<close> or \<open>@unique\<close> admits no value twice, and a
  \<open>@relation(fields: fs, references: rs)\<close> is a foreign key: when the columns \<open>fs\<close> of
  a row are all set, some row of the referenced model has these values in \<open>rs\<close>.
\<close>

type_synonym row = "(string \<times> string) list"

type_synonym database = "(string \<times> row list) list"

definition table :: "database \<Rightarrow> string \<Rightarrow> row list" where
  "table db name = (case map_of db name of None \<Rightarrow> [] | Some rows \<Rightarrow> rows)"

definition is_model :: "model list \<Rightarrow> string \<Rightarrow> bool" where
  "is_model sch t = (t \<in> set (map model_name sch))"

definition not_null_ok :: "model list \<Rightarrow> field \<Rightarrow> row \<Rightarrow> bool" where
  "not_null_ok sch f r =
     (if field_arity f = Required \<and> \<not> is_model sch (field_type f)
      then map_of r (field_name f) \<noteq> None else True)"

definition foreign_key_ok ::
  "database \<Rightarrow> string \<Rightarrow> string list \<Rightarrow> string list \<Rightarrow> row \<Rightarrow> bool" where
  "foreign_key_ok db target fs rs r =
     (if list_all (\<lambda>c. map_of r c \<noteq> None) fs
      then list_ex (\<lambda>r'. map (map_of r') rs = map (map_of r) fs) (table db target)
      else True)"

fun attribute_ok :: "database \<Rightarrow> field \<Rightarrow> row \<Rightarrow> attribute \<Rightarrow> bool" where
  "attribute_ok db f r (AttrRelation fs rs) = foreign_key_ok db (field_type f) fs rs r"
| "attribute_ok db f r _ = True"

definition row_ok :: "model list \<Rightarrow> database \<Rightarrow> model \<Rightarrow> row \<Rightarrow> bool" where
  "row_ok sch db m r =
     list_all (\<lambda>f. not_null_ok sch f r \<and> list_all (attribute_ok db f r) (field_attrs f))
       (model_fields m)"

definition is_key :: "field \<Rightarrow> bool" where
  "is_key f = (AttrId \<in> set (field_attrs f) \<or> AttrUnique \<in> set (field_attrs f))"

definition unique_ok :: "model \<Rightarrow> row list \<Rightarrow> bool" where
  "unique_ok m rows =
     list_all (\<lambda>f. distinct (List.map_filter (\<lambda>r. map_of r (field_name f)) rows))
       (filter is_key (model_fields m))"

definition satisfies :: "model list \<Rightarrow> database \<Rightarrow> bool" where
  "satisfies sch db =
     list_all (\<lambda>m. list_all (row_ok sch db m) (table db (model_name m)) \<and>
                   unique_ok m (table db (model_name m))) sch"

section \<open>Sample inputs\<close>

text \<open>Concrete values on which the properties below are evaluated.\<close>

definition msg_yes :: message where
  "msg_yes = \<lparr>msg_role = ''user'', msg_content = ''yes'', msg_timestamp = ''10:00''\<rparr>"

definition msg_no :: message where
  "msg_no = \<lparr>msg_role = ''user'', msg_content = ''no'', msg_timestamp = ''10:00''\<rparr>"

definition run_of :: "message list \<Rightarrow> analysis_run" where
  "run_of ms =
     \<lparr>run_messages = ms, run_isConsultationStarted = True, run_isPaused = False,
      run_sessionId = Some ''s1''\<rparr>"

definition sample_statuses :: "job_result list" where
  "sample_statuses =
     [\<lparr>jr_jobId = ''j1'', jr_status = ''completed'',
       jr_data = Some \<lparr>jd_processed = JBool True, jd_data = JStr ''rest advised''\<rparr>\<rparr>,
      \<lparr>jr_jobId = ''j2'', jr_status = ''active'', jr_data = None\<rparr>,
      \<lparr>jr_jobId = ''j3'', jr_status = ''completed'',
       jr_data = Some \<lparr>jd_processed = JBool False, jd_data = JStr ''pending''\<rparr>\<rparr>]"

definition sample_page :: page_state where
  "sample_page =
     \<lparr>insights = [], workerIds = [''j1'', ''j2'', ''j3''], lastAnalysisTimestamp = None,
      sentMessages = []\<rparr>"

definition sample_db :: database where
  "sample_db =
     [(''Kiosk'',
        [[(''id'', ''k1''), (''status'', ''ACTIVE''), (''createdAt'', ''2025-02-01''),
          (''updatedAt'', ''2025-02-01'')]]),
      (''Session'',
        [[(''id'', ''s1''), (''userId'', ''u1''), (''kioskId'', ''k1''),
          (''state'', ''IN_PROGRESS''), (''createdAt'', ''2025-02-01''),
          (''updatedAt'', ''2025-02-01'')]]),
      (''Conversation'',
        [[(''id'', ''c1''), (''sessionId'', ''s1''), (''createdAt'', ''2025-02-01''),
          (''updatedAt'', ''2025-02-01'')]]),
      (''ChatMessage'',
        [[(''id'', ''m1''), (''conversationId'', ''c1''), (''sender'', ''user''),
          (''messageText'', ''hello''), (''timestamp'', ''2025-02-01'')]]),
      (''HealthMarker'',
        [[(''id'', ''h1''), (''sessionId'', ''s1''), (''markerType'', ''weight''),
          (''data'', ''80''), (''capturedAt'', ''2025-02-01'')]])]"

section \<open>Properties of the kiosk page\<close>

subsection \<open>Connection management\<close>

text \<open>
  C4. The connection effect calls \<open>connect\<close> exactly when the consultation is started,
  the connection is not established and nothing is loading; it calls \<open>disconnect\<close>
  exactly when the consultation is not started and the connection is established; in
  every other combination of the three flags it calls neither.
\<close>

theorem handleConnection_exact:
  "(handleConnection s c l = CallConnect) = (s \<and> \<not> c \<and> \<not> l) \<and>
   (handleConnection s c l = CallDisconnect) = (\<not> s \<and> c) \<and>
   (handleConnection s c l = CallNothing) = (\<not> (s \<and> \<not> c \<and> \<not> l) \<and> \<not> (\<not> s \<and> c))"
  by (cases s; cases c; cases l) (simp_all add: handleConnection_def)

subsection \<open>Pause and resume\<close>

lemma toggle_simps:
  "handleTogglePause False (Inr u) r = (True, [PauseSessionCalled, SetIsPaused True])"
  "handleTogglePause False (Inl e) r = (False, [PauseSessionCalled, PauseErrorLogged e])"
  "handleTogglePause True p (Inr u) = (False, [ResumeSessionCalled, SetIsPaused False])"
  "handleTogglePause True p (Inl e) = (True, [ResumeSessionCalled, PauseErrorLogged e])"
  by (simp_all add: handleTogglePause_def)

text \<open>
  C3. When \<open>handleTogglePause\<close> runs with \<open>isPaused\<close> false and \<open>pauseSession\<close>
  rejects, \<open>isPaused\<close> stays false; when it runs with \<open>isPaused\<close> true and
  \<open>resumeSession\<close> rejects, \<open>isPaused\<close> stays true. The flag changes only when the
  corresponding promise resolved, and \<open>setIsPaused\<close> is called only after the call of
  the hook function, with the negation of the flag.
\<close>

theorem handleTogglePause_flips_only_on_resolve:
  "(\<not> isPaused \<and> isl pauseSession \<longrightarrow>
      fst (handleTogglePause isPaused pauseSession resumeSession) = False) \<and>
   (isPaused \<and> isl resumeSession \<longrightarrow>
      fst (handleTogglePause isPaused pauseSession resumeSession) = True) \<and>
   (fst (handleTogglePause isPaused pauseSession resumeSession) \<noteq> isPaused \<longrightarrow>
      (if isPaused then \<not> isl resumeSession else \<not> isl pauseSession)) \<and>
   (\<forall>b. SetIsPaused b \<in> set (snd (handleTogglePause isPaused pauseSession resumeSession)) \<longrightarrow>
      b = (\<not> isPaused) \<and>
      (if isPaused
       then \<not> isl resumeSession \<and>
            snd (handleTogglePause isPaused pauseSession resumeSession) =
              [ResumeSessionCalled, SetIsPaused b]
       else \<not> isl pauseSession \<and>
            snd (handleTogglePause isPaused pauseSession resumeSession) =
              [PauseSessionCalled, SetIsPaused b]))"
  by (cases isPaused; cases pauseSession; cases resumeSession)
     (simp_all add: toggle_simps)

theorem handleTogglePause_witness:
  "fst (handleTogglePause False (Inl (JsError ''Error'' ''pause failed'')) (Inr ())) = False \<and>
   fst (handleTogglePause True (Inr ()) (Inl NonError)) = True \<and>
   isl (Inl NonError :: js_error + unit) \<and>
   fst (handleTogglePause False (Inr ()) (Inl NonError)) = True"
proof -
  have "fst (handleTogglePause False (Inl (JsError ''Error'' ''pause failed'')) (Inr ())) = False"
    using handleTogglePause_flips_only_on_resolve
            [of False "Inl (JsError ''Error'' ''pause failed'')" "Inr ()", THEN conjunct1]
    by simp
  moreover have "fst (handleTogglePause True (Inr ()) (Inl NonError)) = True"
    using handleTogglePause_flips_only_on_resolve
            [of True "Inr ()" "Inl NonError", THEN conjunct2, THEN conjunct1]
    by simp
  moreover have "fst (handleTogglePause False (Inr ()) (Inl NonError)) = True"
    by (simp add: toggle_simps)
  ultimately show ?thesis by simp
qed

subsection \<open>Continuous analysis\<close>

lemma not_already_analyzed:
  "\<not> already_analyzed r m \<Longrightarrow> r \<noteq> Some (msg_timestamp m, msg_content m)"
  by (cases r) (simp_all add: already_analyzed_def split: prod.splits)

lemma perform_submits:
  assumes "ms \<noteq> []"
    and "msg_role (last ms) = ''user''"
    and "\<not> str_includes (msg_content (last ms)) background_marker"
    and "\<not> already_analyzed r (last ms)"
  shows "performContinuousAnalysis ms sid r =
           (Some (msg_timestamp (last ms), msg_content (last ms)),
            Some (last ms,
              \<lparr>req_messages = conversationForAnalysis ms,
               req_sessionId = (case sid of None \<Rightarrow> [] | Some s \<Rightarrow> s)\<rparr>))"
  using assms by (simp add: performContinuousAnalysis_def Let_def)

lemma perform_skips:
  assumes "ms = [] \<or> msg_role (last ms) \<noteq> ''user'' \<or>
           str_includes (msg_content (last ms)) background_marker \<or>
           already_analyzed r (last ms)"
  shows "performContinuousAnalysis ms sid r = (r, None)"
  using assms by (cases "ms = []") (simp_all add: performContinuousAnalysis_def Let_def)

text \<open>
  A run either leaves the ref alone and submits nothing, or it submits the last
  message, which then is a user message without the marker whose key is not in the
  ref, and stores that key.
\<close>

lemma effect_outcome:
  "continuousAnalysisEffect run r = (r, None) \<or>
   (\<exists>m req. continuousAnalysisEffect run r =
        (Some (msg_timestamp m, msg_content m), Some (m, req)) \<and>
      msg_role m = ''user'' \<and> \<not> str_includes (msg_content m) background_marker \<and>
      r \<noteq> Some (msg_timestamp m, msg_content m))"
proof (cases "run_isConsultationStarted run \<and> \<not> run_isPaused run \<and> run_messages run \<noteq> [] \<and>
    msg_role (last (run_messages run)) = ''user'' \<and>
    \<not> str_includes (msg_content (last (run_messages run))) background_marker \<and>
    \<not> already_analyzed r (last (run_messages run))")
  case True
  then have "continuousAnalysisEffect run r =
      (Some (msg_timestamp (last (run_messages run)), msg_content (last (run_messages run))),
       Some (last (run_messages run),
         \<lparr>req_messages = conversationForAnalysis (run_messages run),
          req_sessionId = (case run_sessionId run of None \<Rightarrow> [] | Some s \<Rightarrow> s)\<rparr>))"
    by (simp add: continuousAnalysisEffect_def perform_submits)
  moreover from True
  have "r \<noteq> Some (msg_timestamp (last (run_messages run)), msg_content (last (run_messages run)))"
    by (simp add: not_already_analyzed)
  ultimately show ?thesis using True by metis
next
  case skip: False
  have "continuousAnalysisEffect run r = (r, None)"
  proof (cases "run_isConsultationStarted run \<and> \<not> run_isPaused run")
    case True
    with skip have "run_messages run = [] \<or>
        msg_role (last (run_messages run)) \<noteq> ''user'' \<or>
        str_includes (msg_content (last (run_messages run))) background_marker \<or>
        already_analyzed r (last (run_messages run))"
      by blast
    then have "performContinuousAnalysis (run_messages run) (run_sessionId run) r = (r, None)"
      by (rule perform_skips)
    with True show ?thesis by (simp add: continuousAnalysisEffect_def)
  next
    case False
    then show ?thesis by (auto simp: continuousAnalysisEffect_def)
  qed
  then show ?thesis by simp
qed

lemma analysis_runs_skip:
  "continuousAnalysisEffect run r = (r, None) \<Longrightarrow>
   analysis_runs r (run # runs) = analysis_runs r runs"
  by (simp split: prod.splits)

lemma analysis_runs_submit:
  "continuousAnalysisEffect run r = (r', Some x) \<Longrightarrow>
   analysis_runs r (run # runs) = (fst (analysis_runs r' runs), x # snd (analysis_runs r' runs))"
  by (simp split: prod.splits)

lemma submissions_are_user_messages:
  "(m, req) \<in> set (snd (analysis_runs r runs)) \<Longrightarrow>
   msg_role m = ''user'' \<and> \<not> str_includes (msg_content m) background_marker"
proof (induction runs arbitrary: r)
  case Nil
  then show ?case by simp
next
  case (Cons run runs)
  from effect_outcome [of run r] show ?case
  proof
    assume "continuousAnalysisEffect run r = (r, None)"
    with Cons show ?thesis by (simp add: analysis_runs_skip del: analysis_runs.simps)
  next
    assume "\<exists>m req. continuousAnalysisEffect run r =
        (Some (msg_timestamp m, msg_content m), Some (m, req)) \<and>
        msg_role m = ''user'' \<and> \<not> str_includes (msg_content m) background_marker \<and>
        r \<noteq> Some (msg_timestamp m, msg_content m)"
    then obtain m' req' where
      e: "continuousAnalysisEffect run r =
            (Some (msg_timestamp m', msg_content m'), Some (m', req'))"
      and u: "msg_role m' = ''user''" "\<not> str_includes (msg_content m') background_marker"
      by blast
    from Cons.prems have "(m, req) = (m', req') \<or>
        (m, req) \<in> set (snd (analysis_runs (Some (msg_timestamp m', msg_content m')) runs))"
      by (simp only: analysis_runs_submit [OF e] snd_conv set_simps insert_iff)
    then show ?thesis
    proof
      assume "(m, req) = (m', req')"
      with u show ?thesis by simp
    next
      assume "(m, req) \<in> set (snd (analysis_runs (Some (msg_timestamp m', msg_content m')) runs))"
      then show ?thesis by (rule Cons.IH)
    qed
  qed
qed

lemma submitted_skip:
  "continuousAnalysisEffect run r = (r, None) \<Longrightarrow> submitted r (run # runs) = submitted r runs"
  by (simp only: submitted_def analysis_runs_skip)

lemma submitted_submit:
  "continuousAnalysisEffect run r = (Some (msg_timestamp m, msg_content m), Some (m, req)) \<Longrightarrow>
   submitted r (run # runs) =
     (msg_timestamp m, msg_content m) # submitted (Some (msg_timestamp m, msg_content m)) runs"
  by (simp add: submitted_def analysis_runs_submit del: analysis_runs.simps)

text \<open>
  The ref always holds the key submitted last, so what is submitted next differs
  from it: the keys submitted, with the initial content of the ref in front, never
  repeat from one to the next.
\<close>

lemma submitted_after_ref:
  "distinct_adj ((case r of None \<Rightarrow> [] | Some k \<Rightarrow> [k]) @ submitted r runs)"
proof (induction runs arbitrary: r)
  case Nil
  then show ?case by (cases r) (simp_all add: submitted_def)
next
  case (Cons run runs)
  from effect_outcome [of run r] show ?case
  proof
    assume "continuousAnalysisEffect run r = (r, None)"
    then show ?thesis using Cons.IH [of r] by (simp only: submitted_skip)
  next
    assume "\<exists>m req. continuousAnalysisEffect run r =
        (Some (msg_timestamp m, msg_content m), Some (m, req)) \<and>
        msg_role m = ''user'' \<and> \<not> str_includes (msg_content m) background_marker \<and>
        r \<noteq> Some (msg_timestamp m, msg_content m)"
    then obtain m req where
      e: "continuousAnalysisEffect run r =
            (Some (msg_timestamp m, msg_content m), Some (m, req))"
      and fresh: "r \<noteq> Some (msg_timestamp m, msg_content m)"
      by blast
    have ih: "distinct_adj ((msg_timestamp m, msg_content m) #
        submitted (Some (msg_timestamp m, msg_content m)) runs)"
      using Cons.IH [of "Some (msg_timestamp m, msg_content m)"] by simp
    have eq: "submitted r (run # runs) =
        (msg_timestamp m, msg_content m) # submitted (Some (msg_timestamp m, msg_content m)) runs"
      by (rule submitted_submit [OF e])
    show ?thesis
    proof (cases r)
      case None
      with ih eq show ?thesis by simp
    next
      case (Some k)
      with fresh have "k \<noteq> (msg_timestamp m, msg_content m)" by simp
      with ih eq Some show ?thesis by simp
    qed
  qed
qed

lemma sample_runs_submitted:
  "submitted None [run_of [msg_yes], run_of [msg_yes], run_of [msg_yes, msg_no],
      run_of [msg_yes, msg_no, msg_yes]] =
     [(''10:00'', ''yes''), (''10:00'', ''no''), (''10:00'', ''yes'')]"
  by code_simp

text \<open>
  C10, as stated, fails: the ref remembers one message only. With the conversation
  growing from \<open>[yes]\<close> to \<open>[yes, no]\<close> to \<open>[yes, no, yes]\<close>, where the third message
  has the timestamp and the content of the first, the effect submits that message a
  second time.
\<close>

theorem analysis_resubmits_earlier_message:
  "\<not> distinct (submitted None
      [run_of [msg_yes], run_of [msg_yes, msg_no], run_of [msg_yes, msg_no, msg_yes]])"
  by code_simp

text \<open>
  C10, amended. The continuous-analysis effect never submits an analysis request for
  a last message whose role is not \<open>user\<close> or whose content contains
  \<open>[Background Analysis]\<close>, and it never submits the same last user message
  (identical timestamp and identical content) twice in a row: each submission is for
  a message that differs from the one submitted just before it, and from the one the
  ref held at the start.
\<close>

theorem analysis_submissions:
  "(\<forall>(m, req) \<in> set (snd (analysis_runs r runs)).
      msg_role m = ''user'' \<and> \<not> str_includes (msg_content m) background_marker) \<and>
   distinct_adj (submitted None runs) \<and>
   (\<forall>k. r = Some k \<longrightarrow> distinct_adj (k # submitted r runs))"
proof (intro conjI)
  show "\<forall>(m, req) \<in> set (snd (analysis_runs r runs)).
      msg_role m = ''user'' \<and> \<not> str_includes (msg_content m) background_marker"
    using submissions_are_user_messages by blast
  show "distinct_adj (submitted None runs)"
    using submitted_after_ref [of None runs] by simp
  show "\<forall>k. r = Some k \<longrightarrow> distinct_adj (k # submitted r runs)"
    using submitted_after_ref [of r runs] by auto
qed

theorem analysis_submissions_witness:
  "submitted None [run_of [msg_yes], run_of [msg_yes], run_of [msg_yes, msg_no],
      run_of [msg_yes, msg_no, msg_yes]] =
     [(''10:00'', ''yes''), (''10:00'', ''no''), (''10:00'', ''yes'')] \<and>
   distinct_adj (submitted None [run_of [msg_yes], run_of [msg_yes], run_of [msg_yes, msg_no],
      run_of [msg_yes, msg_no, msg_yes]]) \<and>
   distinct_adj ((''10:00'', ''yes'') #
      submitted (Some (''10:00'', ''yes'')) [run_of [msg_yes], run_of [msg_yes, msg_no]])"
proof (intro conjI)
  show "submitted None [run_of [msg_yes], run_of [msg_yes], run_of [msg_yes, msg_no],
      run_of [msg_yes, msg_no, msg_yes]] =
     [(''10:00'', ''yes''), (''10:00'', ''no''), (''10:00'', ''yes'')]"
    by (rule sample_runs_submitted)
  show "distinct_adj (submitted None [run_of [msg_yes], run_of [msg_yes],
      run_of [msg_yes, msg_no], run_of [msg_yes, msg_no, msg_yes]])"
    by (rule analysis_submissions [THEN conjunct2, THEN conjunct1])
  show "distinct_adj ((''10:00'', ''yes'') #
      submitted (Some (''10:00'', ''yes'')) [run_of [msg_yes], run_of [msg_yes, msg_no]])"
    by (rule analysis_submissions [THEN conjunct2, THEN conjunct2, rule_format, OF refl])
qed

subsection \<open>Completed jobs\<close>

lemma is_completed_iff:
  "is_completed job =
     (jr_status job = ''completed'' \<and>
      (\<exists>d. jr_data job = Some d \<and> jd_processed d = JBool True \<and>
           jd_data d = JStr (analysisData job)))"
proof (cases "jr_data job")
  case None
  then show ?thesis by (simp add: is_completed_def)
next
  case (Some d)
  then show ?thesis
    by (cases "jd_data d") (auto simp: is_completed_def analysisData_def)
qed

lemma forEach_workerIds:
  "workerIds (forEach_completed clock k jobs s) = workerIds s"
  by (induction jobs arbitrary: k s) simp_all

lemma forEach_insights:
  "\<exists>new. insights (forEach_completed clock k jobs s) = insights s @ new \<and>
     map (\<lambda>i. (ins_id i, ins_content i)) new =
       map (\<lambda>job. (jr_jobId job, analysisData job)) jobs"
proof (induction jobs arbitrary: k s)
  case Nil
  then show ?case by simp
next
  case (Cons job jobs)
  let ?i = "\<lparr>ins_id = jr_jobId job, ins_content = analysisData job, ins_timestamp = clock k\<rparr>"
  let ?s = "s\<lparr>lastAnalysisTimestamp := Some (clock k),
          insights := insights s @ [?i],
          sentMessages := sentMessages s @
            [ResponseCreate [''text''] (''[Background Analysis] '' @ analysisData job)]\<rparr>"
  from Cons.IH [of "Suc k" ?s] obtain new where
    n: "insights (forEach_completed clock (Suc k) jobs ?s) = insights ?s @ new"
       "map (\<lambda>i. (ins_id i, ins_content i)) new =
          map (\<lambda>job. (jr_jobId job, analysisData job)) jobs"
    by blast
  have "insights (forEach_completed clock k (job # jobs) s) = insights s @ (?i # new)"
    using n(1) by simp
  moreover have "map (\<lambda>i. (ins_id i, ins_content i)) (?i # new) =
      map (\<lambda>job. (jr_jobId job, analysisData job)) (job # jobs)"
    using n(2) by simp
  ultimately show ?case by blast
qed

lemma find_None_iff_image:
  "(find (\<lambda>job. jr_jobId job = i) jobs = None) = (i \<notin> jr_jobId ` set jobs)"
  by (auto simp: find_None_iff)

lemma effect_none_completed:
  "filter is_completed statuses = [] \<Longrightarrow> completedJobsEffect clock (Some statuses) s = s"
  by (simp add: completedJobsEffect_def)

lemma effect_workerIds:
  "workerIds (completedJobsEffect clock (Some statuses) s) =
     filter (\<lambda>i. i \<notin> jr_jobId ` set (filter is_completed statuses)) (workerIds s)"
proof (cases "filter is_completed statuses = []")
  case True
  then show ?thesis by (simp add: effect_none_completed)
next
  case False
  then show ?thesis
    by (simp add: completedJobsEffect_def Let_def forEach_workerIds find_None_iff_image)
qed

lemma effect_insights:
  "\<exists>new. insights (completedJobsEffect clock (Some statuses) s) = insights s @ new \<and>
     map (\<lambda>i. (ins_id i, ins_content i)) new =
       map (\<lambda>job. (jr_jobId job, analysisData job)) (filter is_completed statuses)"
proof (cases "filter is_completed statuses = []")
  case True
  then show ?thesis by (simp add: effect_none_completed)
next
  case False
  then have "insights (completedJobsEffect clock (Some statuses) s) =
      insights (forEach_completed clock 0 (filter is_completed statuses) s)"
    by (simp add: completedJobsEffect_def Let_def)
  then show ?thesis
    using forEach_insights [of clock 0 "filter is_completed statuses" s] by simp
qed

lemma sample_effect:
  "insights (completedJobsEffect (\<lambda>k. ''2025-02-01T10:00:00Z'') (Some sample_statuses)
      sample_page) =
     [\<lparr>ins_id = ''j1'', ins_content = ''rest advised'',
       ins_timestamp = ''2025-02-01T10:00:00Z''\<rparr>]"
  "workerIds (completedJobsEffect (\<lambda>k. ''2025-02-01T10:00:00Z'') (Some sample_statuses)
      sample_page) = [''j2'', ''j3'']"
  "filter is_completed sample_statuses =
     [\<lparr>jr_jobId = ''j1'', jr_status = ''completed'',
       jr_data = Some \<lparr>jd_processed = JBool True, jd_data = JStr ''rest advised''\<rparr>\<rparr>]"
  by code_simp+

text \<open>
  C5. In a run of the completed-jobs effect on the polled statuses, every job whose
  status is \<open>completed\<close> and whose data has \<open>processed === true\<close> and a string
  \<open>data\<close> contributes exactly one new insight, appended in order, with the job id as
  its id and the data string as its content, and its job id is removed from
  \<open>workerIds\<close>. The other jobs contribute no insight and remove no id; when no job
  qualifies, the state is unchanged.
\<close>

theorem completedJobsEffect_reconciles:
  "(\<exists>new. insights (completedJobsEffect clock (Some statuses) s) = insights s @ new \<and>
      map (\<lambda>i. (ins_id i, ins_content i)) new =
        map (\<lambda>job. (jr_jobId job, analysisData job)) (filter is_completed statuses)) \<and>
   workerIds (completedJobsEffect clock (Some statuses) s) =
     filter (\<lambda>i. i \<notin> jr_jobId ` set (filter is_completed statuses)) (workerIds s) \<and>
   (\<forall>job \<in> set statuses.
      is_completed job =
        (jr_status job = ''completed'' \<and>
         (\<exists>d. jr_data job = Some d \<and> jd_processed d = JBool True \<and>
              jd_data d = JStr (analysisData job)))) \<and>
   (\<forall>job \<in> set statuses. is_completed job \<longrightarrow>
      jr_jobId job \<notin> set (workerIds (completedJobsEffect clock (Some statuses) s))) \<and>
   ((\<forall>job \<in> set statuses. \<not> is_completed job) \<longrightarrow>
      completedJobsEffect clock (Some statuses) s = s)"
proof (intro conjI)
  show "\<exists>new. insights (completedJobsEffect clock (Some statuses) s) = insights s @ new \<and>
      map (\<lambda>i. (ins_id i, ins_content i)) new =
        map (\<lambda>job. (jr_jobId job, analysisData job)) (filter is_completed statuses)"
    by (rule effect_insights)
  show "workerIds (completedJobsEffect clock (Some statuses) s) =
     filter (\<lambda>i. i \<notin> jr_jobId ` set (filter is_completed statuses)) (workerIds s)"
    by (rule effect_workerIds)
  show "\<forall>job \<in> set statuses.
      is_completed job =
        (jr_status job = ''completed'' \<and>
         (\<exists>d. jr_data job = Some d \<and> jd_processed d = JBool True \<and>
              jd_data d = JStr (analysisData job)))"
    using is_completed_iff by blast
  show "\<forall>job \<in> set statuses. is_completed job \<longrightarrow>
      jr_jobId job \<notin> set (workerIds (completedJobsEffect clock (Some statuses) s))"
    by (simp add: effect_workerIds)
  show "(\<forall>job \<in> set statuses. \<not> is_completed job) \<longrightarrow>
      completedJobsEffect clock (Some statuses) s = s"
    by (simp add: effect_none_completed filter_empty_conv)
qed

theorem completedJobsEffect_witness:
  "insights (completedJobsEffect (\<lambda>k. ''2025-02-01T10:00:00Z'') (Some sample_statuses)
      sample_page) =
     [\<lparr>ins_id = ''j1'', ins_content = ''rest advised'',
       ins_timestamp = ''2025-02-01T10:00:00Z''\<rparr>] \<and>
   workerIds (completedJobsEffect (\<lambda>k. ''2025-02-01T10:00:00Z'') (Some sample_statuses)
      sample_page) = [''j2'', ''j3''] \<and>
   workerIds (completedJobsEffect (\<lambda>k. ''2025-02-01T10:00:00Z'') (Some sample_statuses)
      sample_page) =
     filter (\<lambda>i. i \<notin> jr_jobId ` set (filter is_completed sample_statuses))
       (workerIds sample_page) \<and>
   completedJobsEffect (\<lambda>k. ''now'') (Some []) sample_page = sample_page"
proof (intro conjI)
  show "insights (completedJobsEffect (\<lambda>k. ''2025-02-01T10:00:00Z'') (Some sample_statuses)
      sample_page) =
     [\<lparr>ins_id = ''j1'', ins_content = ''rest advised'',
       ins_timestamp = ''2025-02-01T10:00:00Z''\<rparr>]"
    by (rule sample_effect)
  show "workerIds (completedJobsEffect (\<lambda>k. ''2025-02-01T10:00:00Z'') (Some sample_statuses)
      sample_page) = [''j2'', ''j3'']"
    by (rule sample_effect)
  show "workerIds (completedJobsEffect (\<lambda>k. ''2025-02-01T10:00:00Z'') (Some sample_statuses)
      sample_page) =
     filter (\<lambda>i. i \<notin> jr_jobId ` set (filter is_completed sample_statuses))
       (workerIds sample_page)"
    by (rule completedJobsEffect_reconciles [THEN conjunct2, THEN conjunct1])
  show "completedJobsEffect (\<lambda>k. ''now'') (Some []) sample_page = sample_page"
    using completedJobsEffect_reconciles
            [of "\<lambda>k. ''now''" "[]" sample_page, THEN conjunct2, THEN conjunct2, THEN conjunct2,
             THEN conjunct2]
    by simp
qed

subsection \<open>Finishing the consultation\<close>

lemma resolve_unbound:
  "x \<notin> set scope \<Longrightarrow>
   resolve scope x = (Inl (JsError ''ReferenceError'' (x @ '' is not defined'')), [])"
  by (simp add: resolve_def)

lemma resolve_bound: "x \<in> set scope \<Longrightarrow> resolve scope x = (Inr (), [])"
  by (simp add: resolve_def)

lemma and_then_throws: "and_then (Inl e, evs) f = (Inl e, evs)"
  by (simp add: and_then_def)

lemma and_then_returns: "and_then (Inr a, evs) f = (fst (f a), evs @ snd (f a))"
  by (simp add: and_then_def split: prod.splits)

text \<open>
  Were the handler declared where the six names are bound (inside the component), a
  successful fetch would lead to the redirect: the model does have a success path.
\<close>

lemma handleFinishConsultation_in_component:
  assumes "set [''setIsGeneratingSummary'', ''messages'', ''analyzedFiles'', ''insights'',
             ''disconnect'', ''router''] \<subseteq> set scope"
  shows "handleFinishConsultation scope (Inr \<lparr>resp_ok = True, resp_summary = Inr summary\<rparr>) =
     (Inr (), [SetIsGeneratingSummary True, FetchGenerateSummary, Disconnect,
        RouterPushEnd summary])"
proof -
  from assms have b: "resolve scope ''setIsGeneratingSummary'' = (Inr (), [])"
    "resolve scope ''messages'' = (Inr (), [])"
    "resolve scope ''analyzedFiles'' = (Inr (), [])"
    "resolve scope ''insights'' = (Inr (), [])"
    "resolve scope ''disconnect'' = (Inr (), [])"
    "resolve scope ''router'' = (Inr (), [])"
    by (simp_all add: resolve_bound)
  have "finish_try scope (Inr \<lparr>resp_ok = True, resp_summary = Inr summary\<rparr>) =
      (Inr (), [SetIsGeneratingSummary True, FetchGenerateSummary, Disconnect,
        RouterPushEnd summary])"
    unfolding finish_try_def b by (simp add: and_then_returns perform_def)
  then show ?thesis by (simp add: handleFinishConsultation_def)
qed

text \<open>
  C9. Every call of \<open>handleFinishConsultation\<close> ends in a \<open>ReferenceError\<close>: in a
  scope that does not bind \<open>setIsGeneratingSummary\<close>, as the module scope where the
  function is declared, the first statement of the \<open>try\<close> block throws it, the
  \<open>catch\<close> block logs it and throws it again at its own call of
  \<open>setIsGeneratingSummary\<close>, and nothing else is done: no summary is requested, no
  disconnect, no redirect to the end page, whatever the summary endpoint would answer.
\<close>

theorem handleFinishConsultation_reference_error:
  assumes "''setIsGeneratingSummary'' \<notin> set scope"
  shows "handleFinishConsultation scope fetched =
     (Inl (JsError ''ReferenceError'' ''setIsGeneratingSummary is not defined''),
      [FinishErrorLogged (JsError ''ReferenceError'' ''setIsGeneratingSummary is not defined'')])"
proof -
  have t: "finish_try scope fetched =
      (Inl (JsError ''ReferenceError'' ''setIsGeneratingSummary is not defined''), [])"
    unfolding finish_try_def using resolve_unbound [OF assms] by (simp add: and_then_throws)
  show ?thesis
    unfolding handleFinishConsultation_def t
    using resolve_unbound [OF assms] by (simp add: and_then_def)
qed

theorem handleFinishConsultation_witness:
  "list_all (\<lambda>x. x \<notin> set module_scope)
     [''setIsGeneratingSummary'', ''messages'', ''analyzedFiles'', ''insights'',
      ''disconnect'', ''router''] \<and>
   handleFinishConsultation module_scope
       (Inr \<lparr>resp_ok = True, resp_summary = Inr ''all well''\<rparr>) =
     (Inl (JsError ''ReferenceError'' ''setIsGeneratingSummary is not defined''),
      [FinishErrorLogged (JsError ''ReferenceError'' ''setIsGeneratingSummary is not defined'')])"
proof -
  have h: "''setIsGeneratingSummary'' \<notin> set module_scope"
    by (simp add: module_scope_def)
  have "list_all (\<lambda>x. x \<notin> set module_scope)
     [''setIsGeneratingSummary'', ''messages'', ''analyzedFiles'', ''insights'',
      ''disconnect'', ''router'']"
    by (simp add: module_scope_def)
  then show ?thesis using handleFinishConsultation_reference_error [OF h] by simp
qed

section \<open>Properties of the API routes\<close>

subsection \<open>Validation\<close>

lemma isl_ap: "isl (ap f x) = (isl f \<or> isl x)"
  by (cases f; cases x) (simp_all add: ap_def)

lemma ap_Inr_iff: "(ap f x = Inr v) = (\<exists>g a. f = Inr g \<and> x = Inr a \<and> v = g a)"
  by (cases f; cases x) (auto simp: ap_def)

lemma ap_InrE:
  assumes "ap f x = Inr v"
  obtains g a where "f = Inr g" and "x = Inr a" and "v = g a"
  using assms by (auto simp: ap_Inr_iff)

lemma isl_at_path: "isl (at_path k r) = isl r"
  by (cases r) (simp_all add: at_path_def)

lemma at_path_Inr_iff: "(at_path k r = Inr v) = (r = Inr v)"
  by (cases r) (simp_all add: at_path_def)

lemma property_Inr_iff: "(property props k s = Inr v) = (s (map_of props k) = Inr v)"
  by (simp add: property_def at_path_Inr_iff)

lemma isl_property: "isl (property props k s) = isl (s (map_of props k))"
  by (simp add: property_def isl_at_path)

text \<open>An accepted body has, as \<open>maxResults\<close>, what its schema made of the property.\<close>

lemma parse_maxResults:
  assumes "TavilySearchSchema_parse (JObj props) = Inr p"
  shows "property props ''maxResults'' (z_optional_default (z_number_min_max 0 20) 5) =
           Inr (maxResults p)"
  using assms
  apply (simp only: TavilySearchSchema_parse.simps)
  apply (elim ap_InrE)
  apply simp
  done

lemma min_max_Inr:
  "z_optional_default (z_number_min_max 0 20) 5 x = Inr n \<Longrightarrow> 0 \<le> n \<and> n \<le> 20"
  by (cases x rule: z_number.cases)
     (auto simp: z_optional_default_def z_number_min_max_def Let_def split: if_splits)

lemma min_max_rejects:
  "n < 0 \<or> 20 < n \<Longrightarrow> isl (z_optional_default (z_number_min_max 0 20) 5 (Some (JNum n)))"
  by (auto simp: z_optional_default_def z_number_min_max_def Let_def)

lemma parse_rejects_maxResults:
  assumes "map_of props ''maxResults'' = Some (JNum n)" and "n < 0 \<or> 20 < n"
  shows "isl (TavilySearchSchema_parse (JObj props))"
  using min_max_rejects [OF assms(2)] assms(1) by (simp add: isl_ap isl_property)

lemma parse_query_only:
  "TavilySearchSchema_parse (JObj [(''query'', JStr q)]) =
     Inr (TavilyParams q ''basic'' ''general'' 3 None 5 False False (Inl False) False [] [])"
  by (simp add: property_def at_path_def ap_def z_optional_default_def z_optional_def)

lemma parse_query_maxResults:
  "0 \<le> n \<Longrightarrow> n \<le> 20 \<Longrightarrow>
   TavilySearchSchema_parse (JObj [(''query'', JStr q), (''maxResults'', JNum n)]) =
     Inr (TavilyParams q ''basic'' ''general'' 3 None n False False (Inl False) False [] [])"
  by (simp add: property_def at_path_def ap_def z_optional_default_def z_optional_def
        z_number_min_max_def)

lemma parse_query_seven:
  "TavilySearchSchema_parse (JObj [(''query'', JStr q), (''maxResults'', JNum 7)]) =
     Inr (TavilyParams q ''basic'' ''general'' 3 None 7 False False (Inl False) False [] [])"
  by (rule parse_query_maxResults) simp_all


subsection \<open>The search route\<close>

lemma POST_unparsed:
  "POST zm k tav tj (Inl e) = HttpResponse 500 (SearchFailure (failure_text e))"
  by (simp add: POST_def)

lemma POST_invalid:
  "TavilySearchSchema_parse b = Inl issues \<Longrightarrow>
   POST zm k tav tj (Inr b) = HttpResponse 500 (SearchFailure (zm issues))"
  by (simp add: POST_def)

lemma POST_search_throws:
  "TavilySearchSchema_parse b = Inr p \<Longrightarrow> tav k p = Inl e \<Longrightarrow>
   POST zm k tav tj (Inr b) = HttpResponse 500 (SearchFailure (failure_text e))"
  by (simp add: POST_def)

lemma POST_unserialisable:
  "TavilySearchSchema_parse b = Inr p \<Longrightarrow> tav k p = Inr result \<Longrightarrow> tj result = Inl e \<Longrightarrow>
   POST zm k tav tj (Inr b) = HttpResponse 500 (SearchFailure (failure_text e))"
  by (simp add: POST_def)

lemma POST_search_returns:
  "TavilySearchSchema_parse b = Inr p \<Longrightarrow> tav k p = Inr result \<Longrightarrow> tj result = Inr w \<Longrightarrow>
   POST zm k tav tj (Inr b) = HttpResponse 200 (SearchSuccess w)"
  by (simp add: POST_def)




text \<open>
  C2, as stated, fails: a body that parses and validates does not get the
  \<open>{success: true, result}\<close> answer when the search itself throws, nor when the
  search returns a value that cannot be serialised into the response; the answer
  then is the failure body with status 500.
\<close>

theorem POST_valid_body_search_throws:
  "TavilySearchSchema_parse (JObj [(''query'', JStr ''flu'')]) =
     Inr (TavilyParams ''flu'' ''basic'' ''general'' 3 None 5 False False (Inl False) False [] []) \<and>
   POST (\<lambda>issues. ''invalid input'') ''key''
       (\<lambda>k p. Inl (JsError ''Error'' ''upstream unavailable'') :: js_error + string)
       (\<lambda>r. Inr r) (Inr (JObj [(''query'', JStr ''flu'')])) =
     HttpResponse 500 (SearchFailure ''upstream unavailable'') \<and>
   POST (\<lambda>issues. ''invalid input'') ''key'' (\<lambda>k p. Inr (18446744073709551616 :: int))
       (\<lambda>n. Inl (JsError ''TypeError'' ''Do not know how to serialize a BigInt'')
          :: js_error + string)
       (Inr (JObj [(''query'', JStr ''flu'')])) =
     HttpResponse 500 (SearchFailure ''Do not know how to serialize a BigInt'')"
proof (intro conjI)
  show "TavilySearchSchema_parse (JObj [(''query'', JStr ''flu'')]) =
     Inr (TavilyParams ''flu'' ''basic'' ''general'' 3 None 5 False False (Inl False) False [] [])"
    by (rule parse_query_only)
  show "POST (\<lambda>issues. ''invalid input'') ''key''
       (\<lambda>k p. Inl (JsError ''Error'' ''upstream unavailable'') :: js_error + string)
       (\<lambda>r. Inr r) (Inr (JObj [(''query'', JStr ''flu'')])) =
     HttpResponse 500 (SearchFailure ''upstream unavailable'')"
    using POST_search_throws
            [where tav = "\<lambda>k p. Inl (JsError ''Error'' ''upstream unavailable'')
                           :: js_error + string"
               and tj = "\<lambda>r. Inr r",
             OF parse_query_only refl]
    by simp
  show "POST (\<lambda>issues. ''invalid input'') ''key'' (\<lambda>k p. Inr (18446744073709551616 :: int))
       (\<lambda>n. Inl (JsError ''TypeError'' ''Do not know how to serialize a BigInt'')
          :: js_error + string)
       (Inr (JObj [(''query'', JStr ''flu'')])) =
     HttpResponse 500 (SearchFailure ''Do not know how to serialize a BigInt'')"
    using POST_unserialisable
            [where tav = "\<lambda>k p. Inr (18446744073709551616 :: int)"
               and tj = "\<lambda>n. Inl (JsError ''TypeError'' ''Do not know how to serialize a BigInt'')",
             OF parse_query_only refl refl]
    by simp
qed

text \<open>
  C2, amended. For every request whose body parses as JSON and validates against
  \<open>TavilySearchSchema\<close>, for which the search of the Tavily client returns and its
  result can be serialised, the handler answers with status 200 and the body
  \<open>{success: true, result}\<close>, where \<open>result\<close> is the serialisation of exactly the
  value the search returned for the validated parameters. The handler gives this
  answer in no other case.
\<close>

theorem POST_success:
  "(rq = Inr b \<and> TavilySearchSchema_parse b = Inr p \<and> tav k p = Inr result \<and>
      tj result = Inr w \<longrightarrow>
    POST zm k tav tj rq = HttpResponse 200 (SearchSuccess w)) \<and>
   (POST zm k tav tj rq = HttpResponse 200 (SearchSuccess w) \<longrightarrow>
    (\<exists>b p result. rq = Inr b \<and> TavilySearchSchema_parse b = Inr p \<and>
       tav k p = Inr result \<and> tj result = Inr w))"
proof (intro conjI impI)
  assume "rq = Inr b \<and> TavilySearchSchema_parse b = Inr p \<and> tav k p = Inr result \<and>
      tj result = Inr w"
  then show "POST zm k tav tj rq = HttpResponse 200 (SearchSuccess w)"
    by (simp add: POST_search_returns)
next
  assume ok: "POST zm k tav tj rq = HttpResponse 200 (SearchSuccess w)"
  show "\<exists>b p result. rq = Inr b \<and> TavilySearchSchema_parse b = Inr p \<and>
       tav k p = Inr result \<and> tj result = Inr w"
  proof (cases rq)
    case (Inl e)
    with ok show ?thesis by (simp add: POST_unparsed)
  next
    case rq: (Inr b)
    show ?thesis
    proof (cases "TavilySearchSchema_parse b")
      case (Inl issues)
      with ok rq show ?thesis by (simp add: POST_invalid)
    next
      case p: (Inr p)
      show ?thesis
      proof (cases "tav k p")
        case (Inl e)
        with ok rq p show ?thesis by (simp add: POST_search_throws)
      next
        case r: (Inr result)
        show ?thesis
        proof (cases "tj result")
          case (Inl e)
          with ok rq p r show ?thesis by (simp add: POST_unserialisable)
        next
          case (Inr w')
          with ok rq p r show ?thesis by (simp add: POST_search_returns)
        qed
      qed
    qed
  qed
qed

theorem POST_success_witness:
  "POST (\<lambda>issues. ''invalid input'') ''key'' (\<lambda>k p. Inr (k @ '': '' @ query p))
       (\<lambda>r. Inr (JStr r)) (Inr (JObj [(''query'', JStr ''flu'')])) =
     HttpResponse 200 (SearchSuccess (JStr ''key: flu''))"
proof -
  have "Inr (JObj [(''query'', JStr ''flu'')]) = (Inr (JObj [(''query'', JStr ''flu'')]) :: js_error + json) \<and>
    TavilySearchSchema_parse (JObj [(''query'', JStr ''flu'')]) =
      Inr (TavilyParams ''flu'' ''basic'' ''general'' 3 None 5 False False (Inl False) False [] []) \<and>
    (\<lambda>k p. Inr (k @ '': '' @ query p) :: js_error + string) ''key''
      (TavilyParams ''flu'' ''basic'' ''general'' 3 None 5 False False (Inl False) False [] []) =
      Inr ''key: flu'' \<and>
    (\<lambda>r. Inr (JStr r) :: js_error + json) ''key: flu'' = Inr (JStr ''key: flu'')"
    by (simp add: parse_query_only del: TavilySearchSchema_parse.simps)
  then show ?thesis
    by (rule POST_success [THEN conjunct1, rule_format])
qed

text \<open>
  C8. \<open>TavilySearchSchema\<close> accepts \<open>maxResults\<close> only from 0 to 20 inclusive: the
  parameters of an accepted body have \<open>maxResults\<close> in that range, a body whose
  \<open>maxResults\<close> is a number below 0 or above 20 fails validation, so that the route
  answers with status 500, and every number from 0 to 20 is accepted beside a query. A body holding only a query string validates, with the
  defaults \<open>searchDepth = 'basic'\<close>, \<open>topic = 'general'\<close>, \<open>days = 3\<close>,
  \<open>maxResults = 5\<close>, \<open>includeImages = false\<close>, \<open>includeImageDescriptions = false\<close>,
  \<open>includeAnswer = false\<close>, \<open>includeRawContent = false\<close>, \<open>includeDomains = []\<close>,
  \<open>excludeDomains = []\<close> (and no \<open>timeRange\<close>).
\<close>

theorem TavilySearchSchema_maxResults_and_defaults:
  "(\<forall>p. TavilySearchSchema_parse body = Inr p \<longrightarrow> 0 \<le> maxResults p \<and> maxResults p \<le> 20) \<and>
   (\<forall>props n. body = JObj props \<and> map_of props ''maxResults'' = Some (JNum n) \<and>
        (n < 0 \<or> 20 < n) \<longrightarrow>
      isl (TavilySearchSchema_parse body) \<and>
      http_status (POST zm k tav tj (Inr body)) = 500) \<and>
   (\<forall>n. 0 \<le> n \<and> n \<le> 20 \<longrightarrow>
      TavilySearchSchema_parse (JObj [(''query'', JStr q), (''maxResults'', JNum n)]) =
        Inr (TavilyParams q ''basic'' ''general'' 3 None n False False (Inl False) False [] [])) \<and>
   TavilySearchSchema_parse (JObj [(''query'', JStr q)]) =
     Inr (TavilyParams q ''basic'' ''general'' 3 None 5 False False (Inl False) False [] [])"
proof (intro conjI allI impI)
  fix p assume ok: "TavilySearchSchema_parse body = Inr p"
  then obtain props where b: "body = JObj props"
    by (cases body) simp_all
  from ok have "z_optional_default (z_number_min_max 0 20) 5 (map_of props ''maxResults'') =
      Inr (maxResults p)"
    unfolding b using parse_maxResults [of props p] by (simp add: property_Inr_iff)
  then have r: "0 \<le> maxResults p \<and> maxResults p \<le> 20" by (rule min_max_Inr)
  from r show "0 \<le> maxResults p" ..
  from r show "maxResults p \<le> 20" ..
next
  fix props n
  assume a: "body = JObj props \<and> map_of props ''maxResults'' = Some (JNum n) \<and>
    (n < 0 \<or> 20 < n)"
  then have i: "isl (TavilySearchSchema_parse body)"
    using parse_rejects_maxResults [of props n] by blast
  then show "isl (TavilySearchSchema_parse body)" .
  from i obtain issues where "TavilySearchSchema_parse body = Inl issues"
    by (cases "TavilySearchSchema_parse body") simp_all
  then show "http_status (POST zm k tav tj (Inr body)) = 500"
    by (simp add: POST_invalid)
next
  fix n :: real assume "0 \<le> n \<and> n \<le> 20"
  then show "TavilySearchSchema_parse (JObj [(''query'', JStr q), (''maxResults'', JNum n)]) =
      Inr (TavilyParams q ''basic'' ''general'' 3 None n False False (Inl False) False [] [])"
    by (simp only: parse_query_maxResults)
next
  show "TavilySearchSchema_parse (JObj [(''query'', JStr q)]) =
     Inr (TavilyParams q ''basic'' ''general'' 3 None 5 False False (Inl False) False [] [])"
    by (rule parse_query_only)
qed

theorem TavilySearchSchema_witness:
  "TavilySearchSchema_parse (JObj [(''query'', JStr ''flu''), (''maxResults'', JNum 20)]) =
     Inr (TavilyParams ''flu'' ''basic'' ''general'' 3 None 20 False False (Inl False) False [] []) \<and>
   maxResults (TavilyParams ''flu'' ''basic'' ''general'' 3 None 7 False False (Inl False)
     False [] []) \<le> 20 \<and>
   isl (TavilySearchSchema_parse (JObj [(''query'', JStr ''flu''), (''maxResults'', JNum 21)])) \<and>
   http_status (POST (\<lambda>issues. ''invalid input'') ''key'' (\<lambda>k p. Inr (query p))
     (\<lambda>r. Inr r) (Inr (JObj [(''query'', JStr ''flu''), (''maxResults'', JNum 21)]))) = 500 \<and>
   isl (TavilySearchSchema_parse (JObj [(''query'', JStr ''flu''), (''maxResults'', JNum (- 1))]))"
proof (intro conjI)
  have "(0::real) \<le> 20 \<and> (20::real) \<le> 20" by simp
  then show "TavilySearchSchema_parse
      (JObj [(''query'', JStr ''flu''), (''maxResults'', JNum 20)]) =
     Inr (TavilyParams ''flu'' ''basic'' ''general'' 3 None 20 False False (Inl False) False [] [])"
    by (rule TavilySearchSchema_maxResults_and_defaults
          [THEN conjunct2, THEN conjunct2, THEN conjunct1, rule_format])
  show "maxResults (TavilyParams ''flu'' ''basic'' ''general'' 3 None 7 False False (Inl False)
     False [] []) \<le> 20"
    using TavilySearchSchema_maxResults_and_defaults
            [THEN conjunct1, rule_format, OF parse_query_seven]
    by simp
  have big: "JObj [(''query'', JStr ''flu''), (''maxResults'', JNum 21)] =
      JObj [(''query'', JStr ''flu''), (''maxResults'', JNum 21)] \<and>
    map_of [(''query'', JStr ''flu''), (''maxResults'', JNum 21)] ''maxResults'' =
      Some (JNum 21) \<and> ((21::real) < 0 \<or> 20 < (21::real))"
    by simp
  note r = TavilySearchSchema_maxResults_and_defaults
             [where zm = "\<lambda>issues. ''invalid input''" and k = "''key''"
                and tav = "\<lambda>k p. Inr (query p)" and tj = "\<lambda>r. Inr r",
              THEN conjunct2, THEN conjunct1, rule_format, OF big]
  from r show "isl (TavilySearchSchema_parse
      (JObj [(''query'', JStr ''flu''), (''maxResults'', JNum 21)]))" ..
  from r show "http_status (POST (\<lambda>issues. ''invalid input'') ''key'' (\<lambda>k p. Inr (query p))
     (\<lambda>r. Inr r) (Inr (JObj [(''query'', JStr ''flu''), (''maxResults'', JNum 21)]))) = 500" ..
  have small: "JObj [(''query'', JStr ''flu''), (''maxResults'', JNum (- 1))] =
      JObj [(''query'', JStr ''flu''), (''maxResults'', JNum (- 1))] \<and>
    map_of [(''query'', JStr ''flu''), (''maxResults'', JNum (- 1))] ''maxResults'' =
      Some (JNum (- 1)) \<and> ((- 1::real) < 0 \<or> 20 < (- 1::real))"
    by simp
  from TavilySearchSchema_maxResults_and_defaults
         [where zm = "\<lambda>issues. ''invalid input''" and k = "''key''"
            and tav = "\<lambda>k p. Inr (query p)" and tj = "\<lambda>r. Inr r",
          THEN conjunct2, THEN conjunct1, rule_format, OF small]
  show "isl (TavilySearchSchema_parse
      (JObj [(''query'', JStr ''flu''), (''maxResults'', JNum (- 1))]))" ..
qed

subsection \<open>The realtime session route\<close>


lemma GET_returned: "GET_try ss sf tj fetched = Inr response \<Longrightarrow> GET ss sf tj fetched = Inr response"
  by (simp add: GET_def)





section \<open>Properties of the relational schema\<close>

lemma satisfies_rowD:
  assumes "satisfies sch db" and "m \<in> set sch" and "r \<in> set (table db (model_name m))"
  shows "row_ok sch db m r"
  using assms by (simp add: satisfies_def list_all_iff)

lemma satisfies_uniqueD:
  assumes "satisfies sch db" and "m \<in> set sch" and "f \<in> set (model_fields m)"
    and "is_key f"
  shows "distinct (List.map_filter (\<lambda>r. map_of r (field_name f)) (table db (model_name m)))"
  using assms by (simp add: satisfies_def unique_ok_def list_all_iff)

lemma row_ok_not_null:
  assumes "row_ok sch db m r" and "Field c ty Required attrs \<in> set (model_fields m)"
    and "\<not> is_model sch ty"
  shows "map_of r c \<noteq> None"
proof -
  from assms(1,2) have "not_null_ok sch (Field c ty Required attrs) r"
    by (simp add: row_ok_def list_all_iff)
  with assms(3) show ?thesis by (simp add: not_null_ok_def)
qed

lemma row_ok_foreign_key:
  assumes "row_ok sch db m r"
    and "Field f target ar [AttrRelation [c] [k]] \<in> set (model_fields m)"
    and "map_of r c \<noteq> None"
  shows "\<exists>r' \<in> set (table db target). map_of r' k = map_of r c"
proof -
  from assms(1,2) have "attribute_ok db (Field f target ar [AttrRelation [c] [k]]) r
      (AttrRelation [c] [k])"
    by (auto simp: row_ok_def list_all_iff)
  with assms(3) show ?thesis
    by (auto simp: foreign_key_ok_def list_ex_iff)
qed

text \<open>
  A required scalar column that a relation field uses as its foreign key is set in
  every row, and its value is the key of a row of the referenced model.
\<close>

lemma required_reference:
  assumes "satisfies sch db" and "m \<in> set sch"
    and "Field c ty Required attrs \<in> set (model_fields m)" and "\<not> is_model sch ty"
    and "Field f target ar [AttrRelation [c] [k]] \<in> set (model_fields m)"
    and "r \<in> set (table db (model_name m))"
  shows "\<exists>r' \<in> set (table db target). map_of r c \<noteq> None \<and> map_of r' k = map_of r c"
proof -
  have ok: "row_ok sch db m r" using assms(1,2,6) by (rule satisfies_rowD)
  then have nn: "map_of r c \<noteq> None" using assms(3,4) by (rule row_ok_not_null)
  from row_ok_foreign_key [OF ok assms(5) nn] nn show ?thesis by blast
qed

lemmas model_defs =
  Post_def Kiosk_def Session_def Conversation_def ChatMessage_def HealthMarker_def Device_def
  DeviceType_def Recommendation_def Referral_def ExternalQuery_def ExternalResult_def Media_def
  VisionAnalysis_def ContinualVisionFeed_def RealtimeSession_def AuditLog_def MetaReasoning_def
  AnalysisStatus_def GoogleFitTokens_def

lemma String_is_scalar: "\<not> is_model prisma_schema ''String''"
  by (simp add: is_model_def prisma_schema_def model_defs)

lemma HealthMarker_owner:
  assumes "satisfies prisma_schema db" and "hm \<in> set (table db ''HealthMarker'')"
  shows "\<exists>s \<in> set (table db ''Session'').
           map_of hm ''sessionId'' \<noteq> None \<and> map_of s ''id'' = map_of hm ''sessionId''"
proof (rule required_reference [OF assms(1) _ _ String_is_scalar])
  show "HealthMarker \<in> set prisma_schema" by (simp add: prisma_schema_def)
  show "Field ''sessionId'' ''String'' Required [] \<in> set (model_fields HealthMarker)"
    by (simp add: HealthMarker_def)
  show "Field ''session'' ''Session'' Required [AttrRelation [''sessionId''] [''id'']]
      \<in> set (model_fields HealthMarker)"
    by (simp add: HealthMarker_def)
  show "hm \<in> set (table db (model_name HealthMarker))"
    using assms(2) by (simp add: HealthMarker_def)
qed

lemma ChatMessage_owner:
  assumes "satisfies prisma_schema db" and "cm \<in> set (table db ''ChatMessage'')"
  shows "\<exists>c \<in> set (table db ''Conversation'').
           map_of cm ''conversationId'' \<noteq> None \<and> map_of c ''id'' = map_of cm ''conversationId''"
proof (rule required_reference [OF assms(1) _ _ String_is_scalar])
  show "ChatMessage \<in> set prisma_schema" by (simp add: prisma_schema_def)
  show "Field ''conversationId'' ''String'' Required [] \<in> set (model_fields ChatMessage)"
    by (simp add: ChatMessage_def)
  show "Field ''conversation'' ''Conversation'' Required
      [AttrRelation [''conversationId''] [''id'']] \<in> set (model_fields ChatMessage)"
    by (simp add: ChatMessage_def)
  show "cm \<in> set (table db (model_name ChatMessage))"
    using assms(2) by (simp add: ChatMessage_def)
qed

lemma Conversation_owner:
  assumes "satisfies prisma_schema db" and "c \<in> set (table db ''Conversation'')"
  shows "\<exists>s \<in> set (table db ''Session'').
           map_of c ''sessionId'' \<noteq> None \<and> map_of s ''id'' = map_of c ''sessionId''"
proof (rule required_reference [OF assms(1) _ _ String_is_scalar])
  show "Conversation \<in> set prisma_schema" by (simp add: prisma_schema_def)
  show "Field ''sessionId'' ''String'' Required [AttrUnique] \<in> set (model_fields Conversation)"
    by (simp add: Conversation_def)
  show "Field ''session'' ''Session'' Required [AttrRelation [''sessionId''] [''id'']]
      \<in> set (model_fields Conversation)"
    by (simp add: Conversation_def)
  show "c \<in> set (table db (model_name Conversation))"
    using assms(2) by (simp add: Conversation_def)
qed

lemma Conversation_session_unique:
  assumes "satisfies prisma_schema db"
  shows "distinct (List.map_filter (\<lambda>c. map_of c ''sessionId'') (table db ''Conversation''))"
proof -
  have "distinct (List.map_filter
      (\<lambda>r. map_of r (field_name (Field ''sessionId'' ''String'' Required [AttrUnique])))
      (table db (model_name Conversation)))"
  proof (rule satisfies_uniqueD [OF assms])
    show "Conversation \<in> set prisma_schema" by (simp add: prisma_schema_def)
    show "Field ''sessionId'' ''String'' Required [AttrUnique] \<in> set (model_fields Conversation)"
      by (simp add: Conversation_def)
    show "is_key (Field ''sessionId'' ''String'' Required [AttrUnique])"
      by (simp add: is_key_def)
  qed
  then show ?thesis by (simp add: Conversation_def)
qed

lemma sample_db_satisfies: "satisfies prisma_schema sample_db"
  by code_simp

text \<open>
  C7. In a database that meets the constraints of the schema, every health record
  hangs off a session: each \<open>HealthMarker\<close> row has its \<open>sessionId\<close> set to the id
  of an existing \<open>Session\<close> row; each \<open>ChatMessage\<close> row has its \<open>conversationId\<close>
  set to the id of an existing \<open>Conversation\<close> row, whose \<open>sessionId\<close> is set to
  the id of an existing \<open>Session\<close> row; and no two conversations have the same
  \<open>sessionId\<close>.
\<close>

theorem health_records_hang_off_sessions:
  assumes "satisfies prisma_schema db"
  shows "(\<forall>hm \<in> set (table db ''HealthMarker'').
            \<exists>s \<in> set (table db ''Session'').
              map_of hm ''sessionId'' \<noteq> None \<and> map_of s ''id'' = map_of hm ''sessionId'') \<and>
         (\<forall>cm \<in> set (table db ''ChatMessage'').
            \<exists>c \<in> set (table db ''Conversation'').
              map_of cm ''conversationId'' \<noteq> None \<and>
              map_of c ''id'' = map_of cm ''conversationId'' \<and>
              (\<exists>s \<in> set (table db ''Session'').
                 map_of c ''sessionId'' \<noteq> None \<and> map_of s ''id'' = map_of c ''sessionId'')) \<and>
         distinct (List.map_filter (\<lambda>c. map_of c ''sessionId'') (table db ''Conversation''))"
proof (intro conjI ballI)
  fix hm assume "hm \<in> set (table db ''HealthMarker'')"
  with assms show "\<exists>s \<in> set (table db ''Session'').
      map_of hm ''sessionId'' \<noteq> None \<and> map_of s ''id'' = map_of hm ''sessionId''"
    by (rule HealthMarker_owner)
next
  fix cm assume "cm \<in> set (table db ''ChatMessage'')"
  with assms obtain c where c: "c \<in> set (table db ''Conversation'')"
    "map_of cm ''conversationId'' \<noteq> None" "map_of c ''id'' = map_of cm ''conversationId''"
    using ChatMessage_owner by blast
  from Conversation_owner [OF assms c(1)] c
  show "\<exists>c \<in> set (table db ''Conversation'').
      map_of cm ''conversationId'' \<noteq> None \<and>
      map_of c ''id'' = map_of cm ''conversationId'' \<and>
      (\<exists>s \<in> set (table db ''Session'').
         map_of c ''sessionId'' \<noteq> None \<and> map_of s ''id'' = map_of c ''sessionId'')"
    by blast
next
  from assms
  show "distinct (List.map_filter (\<lambda>c. map_of c ''sessionId'') (table db ''Conversation''))"
    by (rule Conversation_session_unique)
qed

theorem health_records_witness:
  "satisfies prisma_schema sample_db \<and>
   table sample_db ''HealthMarker'' \<noteq> [] \<and>
   table sample_db ''ChatMessage'' \<noteq> [] \<and>
   distinct (List.map_filter (\<lambda>c. map_of c ''sessionId'') (table sample_db ''Conversation''))"
proof (intro conjI)
  show "satisfies prisma_schema sample_db" by (rule sample_db_satisfies)
  show "table sample_db ''HealthMarker'' \<noteq> []" by code_simp
  show "table sample_db ''ChatMessage'' \<noteq> []" by code_simp
  show "distinct (List.map_filter (\<lambda>c. map_of c ''sessionId'') (table sample_db ''Conversation''))"
    by (rule health_records_hang_off_sessions [OF sample_db_satisfies,
          THEN conjunct2, THEN conjunct2])
qed

end
